theory Spec2Isabelle
  imports Main "HOL-Library.Word"
begin

section \<open>The socket handler of MonkeyCode (backend/internal/socket/handler/socket.go)\<close>

text \<open>
  The handler receives file-change notifications over a socket.io connection, answers each
  with an immediate acknowledgement and reconciles it against the workspace store on a
  goroutine of its own, which emits the final result.

  The embedding is sequential. The collaborators the handler is constructed with (user
  service, workspace use case, workspace file service), the JSON decoder, the clock and
  \<open>db.IsNotFound\<close> are parameters (record \<open>env\<close>); their state is an arbitrary type
  \<open>'s\<close> that every call may change, so a theorem about every \<open>env\<close> covers every
  sequence of answers the collaborators can give. Everything the handler does to the
  outside is appended to a trace: calls of the collaborators, socket emissions, calls of
  the acknowledgement callback and goroutines started. Calls of the logger are left out,
  and so are the two mutexes (\<open>mu\<close>, \<open>cacheMutex\<close>).
\<close>

subsection \<open>Data\<close>

type_synonym int64 = "64 word"

text \<open>Floating point is not modelled: \<open>float64\<close> is opaque, the conversion
  \<open>int64(f)\<close> is a parameter of the environment.\<close>

typedecl float64

record FileUpdateData =
  ID :: string
  FilePath :: string
  Hash :: string
  Event :: string
  Content :: string
  PreviousHash :: string
  Timestamp :: int64
  ApiKey :: string
  WorkspacePath :: string

record AckResponse =
  AckResponse_ID :: string
  Status :: string
  Message :: string

record TestPingData =
  TestPingData_Timestamp :: int64
  TestPingData_Message :: string
  TestPingData_SocketID :: string

record HeartbeatData =
  HeartbeatData_Type :: string
  HeartbeatData_Timestamp :: int64
  HeartbeatData_ClientID :: string

text \<open>Go's \<open>interface{}\<close>, as far as the handler meets it: the values socket.io
  decodes from the wire, and the values the handler hands to \<open>Emit\<close> and to the
  acknowledgement callback. A Go map is a finite map from keys to values.\<close>

datatype iface =
    INil
  | IBool bool
  | IFloat64 float64
  | IInt64 int64
  | IString string
  | ISlice "iface list"
  | IMap "string \<Rightarrow> iface option"
  | IAckResponse AckResponse
  | ITestPingData TestPingData

text \<open>\<open>socketio.EventPayload\<close>: the arguments of the event and whether the client
  asked for an acknowledgement (\<open>Ack\<close> is the callback, \<open>nil\<close> when it did not).\<close>

record EventPayload =
  Data :: "iface list"
  Ack :: bool

text \<open>The types of package \<open>domain\<close>, with the fields the handler reads or writes. A
  user's UUID is represented by the string its \<open>String()\<close> method returns.\<close>

record User =
  User_ID :: string

record Workspace =
  Workspace_ID :: string

record WorkspaceFile =
  WorkspaceFile_ID :: string
  WorkspaceFile_Hash :: string

record CreateWorkspaceFileReq =
  Create_Path :: string
  Create_Content :: string
  Create_Hash :: string
  Create_UserID :: string
  Create_WorkspaceID :: string

text \<open>\<open>Content\<close> and \<open>Hash\<close> of an update request are pointers: \<open>None\<close> is \<open>nil\<close>.\<close>

record UpdateWorkspaceFileReq =
  Update_ID :: string
  Update_Content :: "string option"
  Update_Hash :: "string option"

text \<open>\<open>domain.CodeLanguageType\<close> is a string type whose named constants are declared
  outside this file; \<open>CodeLanguageTypeNone\<close> stands for the empty string
  that \<open>getFileLanguage\<close> returns by default.\<close>

datatype CodeLanguageType =
    CodeLanguageTypeGo
  | CodeLanguageTypePython
  | CodeLanguageTypeJava
  | CodeLanguageTypeJavaScript
  | CodeLanguageTypeTypeScript
  | CodeLanguageTypeJSX
  | CodeLanguageTypeTSX
  | CodeLanguageTypeHTML
  | CodeLanguageTypeCSS
  | CodeLanguageTypePHP
  | CodeLanguageTypeRust
  | CodeLanguageTypeSwift
  | CodeLanguageTypeKotlin
  | CodeLanguageTypeC
  | CodeLanguageTypeCpp
  | CodeLanguageTypeNone

record FileMeta =
  FileMeta_FilePath :: string
  FileMeta_Language :: CodeLanguageType
  FileMeta_Content :: string

record GetAndSaveReq =
  GetAndSave_UserID :: string
  GetAndSave_WorkspaceID :: string
  GetAndSave_FileMetas :: "FileMeta list"

text \<open>A Go \<open>error\<close>: one a collaborator returned, or one \<open>fmt.Errorf\<close> built in this
  file, kept as its formatted text (nothing in the file unwraps such an error).\<close>

datatype 'e go_error = External 'e | Errorf string

subsection \<open>The handler, its environment and its effects\<close>

record SocketHandler =
  workspaceCache :: "string \<Rightarrow> Workspace option"

datatype event =
    Call_GetUserByApiKey string
  | Call_EnsureWorkspace string string string
  | Call_GetByPath string string string
  | Call_Create CreateWorkspaceFileReq
  | Call_Update UpdateWorkspaceFileReq
  | Call_Delete string
  | Call_GetAndSave GetAndSaveReq
  | Emit string string iface
  | Broadcast string iface
  | AckCall iface
  | Go string FileUpdateData
  | Panic string

text \<open>\<open>Emit sock name v\<close> is \<open>socket.Emit(name, v)\<close> on the socket with id \<open>sock\<close>,
  \<open>Broadcast name v\<close> is \<open>h.io.Emit(name, v)\<close>, \<open>AckCall v\<close> is \<open>data.Ack(v)\<close>,
  \<open>Go sock u\<close> is \<open>go h.processFileUpdateAsync(socket, u)\<close>.\<close>

record ('s, 'e) env =
  GetUserByApiKey :: "string \<Rightarrow> 's \<Rightarrow> ('e + User) \<times> 's"
  EnsureWorkspace :: "string \<Rightarrow> string \<Rightarrow> string \<Rightarrow> 's \<Rightarrow> ('e + Workspace) \<times> 's"
  GetByPath :: "string \<Rightarrow> string \<Rightarrow> string \<Rightarrow> 's \<Rightarrow> ('e + WorkspaceFile) \<times> 's"
  Create :: "CreateWorkspaceFileReq \<Rightarrow> 's \<Rightarrow> ('e + WorkspaceFile) \<times> 's"
  Update :: "UpdateWorkspaceFileReq \<Rightarrow> 's \<Rightarrow> ('e + WorkspaceFile) \<times> 's"
  Delete :: "string \<Rightarrow> 's \<Rightarrow> 'e option \<times> 's"
  GetAndSave :: "GetAndSaveReq \<Rightarrow> 's \<Rightarrow> 'e option \<times> 's"
  IsNotFound :: "'e \<Rightarrow> bool"
  Error :: "'e \<Rightarrow> string"
  Unmarshal_FileUpdateData :: "string \<Rightarrow> 'e + FileUpdateData"
  Unmarshal_TestPingData :: "string \<Rightarrow> 'e + TestPingData"
  Unmarshal_HeartbeatData :: "string \<Rightarrow> 'e + HeartbeatData"
  int64_of_float64 :: "float64 \<Rightarrow> int64"
  Now_UnixMilli :: "'s \<Rightarrow> int64 \<times> 's"
  Now_Format_RFC3339 :: "'s \<Rightarrow> string \<times> 's"

text \<open>The collaborators return a pair of a pointer and an error in Go; the sum types
  leave out the answer \<open>(nil, nil)\<close>, on which the handler would dereference \<open>nil\<close>.\<close>

record 's world =
  store :: 's
  handler :: SocketHandler
  trace :: "event list"

definition NewSocketHandler :: SocketHandler where
  "NewSocketHandler = \<lparr>workspaceCache = Map.empty\<rparr>"

definition log_event :: "event \<Rightarrow> 's world \<Rightarrow> 's world" where
  "log_event e w = w\<lparr>trace := trace w @ [e]\<rparr>"

definition external :: "event \<Rightarrow> ('s \<Rightarrow> 'a \<times> 's) \<Rightarrow> 's world \<Rightarrow> 'a \<times> 's world" where
  "external e f w =
     (case f (store w) of (r, s') \<Rightarrow> (r, w\<lparr>store := s', trace := trace w @ [e]\<rparr>))"

definition go_Error :: "('s, 'e) env \<Rightarrow> 'e go_error \<Rightarrow> string" where
  "go_Error env err = (case err of External e \<Rightarrow> Error env e | Errorf s \<Rightarrow> s)"

definition userService_GetUserByApiKey ::
  "('s, 'e) env \<Rightarrow> string \<Rightarrow> 's world \<Rightarrow> ('e + User) \<times> 's world" where
  "userService_GetUserByApiKey env apiKey =
     external (Call_GetUserByApiKey apiKey) (GetUserByApiKey env apiKey)"

definition workspaceUsecase_EnsureWorkspace ::
  "('s, 'e) env \<Rightarrow> string \<Rightarrow> string \<Rightarrow> string \<Rightarrow> 's world \<Rightarrow> ('e + Workspace) \<times> 's world" where
  "workspaceUsecase_EnsureWorkspace env userID path name =
     external (Call_EnsureWorkspace userID path name) (EnsureWorkspace env userID path name)"

definition workspaceService_GetByPath ::
  "('s, 'e) env \<Rightarrow> string \<Rightarrow> string \<Rightarrow> string \<Rightarrow> 's world \<Rightarrow> ('e + WorkspaceFile) \<times> 's world" where
  "workspaceService_GetByPath env userID workspaceID path =
     external (Call_GetByPath userID workspaceID path) (GetByPath env userID workspaceID path)"

definition workspaceService_Create ::
  "('s, 'e) env \<Rightarrow> CreateWorkspaceFileReq \<Rightarrow> 's world \<Rightarrow> ('e + WorkspaceFile) \<times> 's world" where
  "workspaceService_Create env req = external (Call_Create req) (Create env req)"

definition workspaceService_Update ::
  "('s, 'e) env \<Rightarrow> UpdateWorkspaceFileReq \<Rightarrow> 's world \<Rightarrow> ('e + WorkspaceFile) \<times> 's world" where
  "workspaceService_Update env req = external (Call_Update req) (Update env req)"

definition workspaceService_Delete ::
  "('s, 'e) env \<Rightarrow> string \<Rightarrow> 's world \<Rightarrow> 'e option \<times> 's world" where
  "workspaceService_Delete env fileID = external (Call_Delete fileID) (Delete env fileID)"

definition workspaceService_GetAndSave ::
  "('s, 'e) env \<Rightarrow> GetAndSaveReq \<Rightarrow> 's world \<Rightarrow> 'e option \<times> 's world" where
  "workspaceService_GetAndSave env req = external (Call_GetAndSave req) (GetAndSave env req)"

subsection \<open>Helpers of the handler\<close>

definition sendErrorACK :: "EventPayload \<Rightarrow> string \<Rightarrow> 's world \<Rightarrow> 's world" where
  "sendErrorACK data message w =
     (if Ack data
      then log_event (AckCall (IMap [''status'' \<mapsto> IString ''error'',
                                     ''message'' \<mapsto> IString message])) w
      else w)"

definition sendACKWithLock :: "EventPayload \<Rightarrow> iface \<Rightarrow> 's world \<Rightarrow> 's world" where
  "sendACKWithLock data response w =
     (if Ack data then log_event (AckCall response) w else w)"

definition sendFinalResult ::
  "string \<Rightarrow> FileUpdateData \<Rightarrow> string \<Rightarrow> string \<Rightarrow> 's world \<Rightarrow> 's world" where
  "sendFinalResult socket updateData status message w =
     (let finalResponse = IMap [''id'' \<mapsto> IString (ID updateData),
                                ''status'' \<mapsto> IString status,
                                ''message'' \<mapsto> IString message,
                                ''file'' \<mapsto> IString (FilePath updateData)]
      in log_event (Emit socket ''file:update:ack'' finalResponse) w)"

definition sendServerStatus :: "string \<Rightarrow> string \<Rightarrow> string \<Rightarrow> 's world \<Rightarrow> 's world" where
  "sendServerStatus socket status message w =
     log_event (Emit socket ''server:status''
                  (IMap [''status'' \<mapsto> IString status, ''message'' \<mapsto> IString message])) w"

definition BroadcastServerStatus :: "string \<Rightarrow> string \<Rightarrow> 's world \<Rightarrow> 's world" where
  "BroadcastServerStatus status message w =
     log_event (Broadcast ''server:status''
                  (IMap [''status'' \<mapsto> IString status, ''message'' \<mapsto> IString message])) w"

text \<open>\<open>getFileExtension\<close>: the loop runs \<open>i\<close> from the last index down to 0 and stops at
  the first dot it meets.\<close>

fun getFileExtension_loop :: "string \<Rightarrow> nat \<Rightarrow> string" where
  "getFileExtension_loop filePath 0 =
     (if filePath ! 0 = CHR ''.'' then drop 1 filePath else [])"
| "getFileExtension_loop filePath (Suc i) =
     (if filePath ! Suc i = CHR ''.'' then drop (Suc i + 1) filePath
      else getFileExtension_loop filePath i)"

definition getFileExtension :: "string \<Rightarrow> string" where
  "getFileExtension filePath =
     (if length filePath > 0 then getFileExtension_loop filePath (length filePath - 1) else [])"

definition getFileLanguage :: "string \<Rightarrow> CodeLanguageType" where
  "getFileLanguage fileExtension =
     (if fileExtension = ''go'' then CodeLanguageTypeGo
      else if fileExtension = ''py'' then CodeLanguageTypePython
      else if fileExtension = ''java'' then CodeLanguageTypeJava
      else if fileExtension = ''js'' then CodeLanguageTypeJavaScript
      else if fileExtension = ''ts'' then CodeLanguageTypeTypeScript
      else if fileExtension = ''jsx'' then CodeLanguageTypeJSX
      else if fileExtension = ''tsx'' then CodeLanguageTypeTSX
      else if fileExtension = ''html'' then CodeLanguageTypeHTML
      else if fileExtension = ''css'' then CodeLanguageTypeCSS
      else if fileExtension = ''php'' then CodeLanguageTypePHP
      else if fileExtension = ''rs'' then CodeLanguageTypeRust
      else if fileExtension = ''swift'' then CodeLanguageTypeSwift
      else if fileExtension = ''kt'' then CodeLanguageTypeKotlin
      else if fileExtension = ''c'' then CodeLanguageTypeC
      else if fileExtension = ''cpp'' \<or> fileExtension = ''cc'' \<or> fileExtension = ''cxx''
        then CodeLanguageTypeCpp
      else CodeLanguageTypeNone)"

text \<open>\<open>ensureWorkspace\<close>: the parameter \<open>filePath\<close> is not used by the body.\<close>

definition ensureWorkspace ::
  "('s, 'e) env \<Rightarrow> string \<Rightarrow> string \<Rightarrow> string \<Rightarrow> 's world \<Rightarrow> ('e go_error + string) \<times> 's world" where
  "ensureWorkspace env userID workspacePath filePath w =
     (if workspacePath \<noteq> ''''
      then (case workspaceUsecase_EnsureWorkspace env userID workspacePath '''' w of
              (Inl err, w') \<Rightarrow>
                (Inl (Errorf (''failed to ensure workspace: '' @ Error env err)), w')
            | (Inr workspace, w') \<Rightarrow> (Inr (Workspace_ID workspace), w'))
      else (Inl (Errorf ''no workspace path provided''), w))"

text \<open>The request both branches build for \<open>GetAndSave\<close> (lines 337-352 and 419-434).\<close>

definition getAndSaveReq :: "string \<Rightarrow> string \<Rightarrow> FileUpdateData \<Rightarrow> GetAndSaveReq" where
  "getAndSaveReq userID workspaceID updateData =
     (let fileExtension = getFileExtension (FilePath updateData);
          codeFiles = [\<lparr>FileMeta_FilePath = FilePath updateData,
                        FileMeta_Language = getFileLanguage fileExtension,
                        FileMeta_Content = Content updateData\<rparr>]
      in \<lparr>GetAndSave_UserID = userID, GetAndSave_WorkspaceID = workspaceID,
          GetAndSave_FileMetas = codeFiles\<rparr>)"

subsection \<open>Reconciliation: \<open>processFileUpdateAsync\<close>\<close>

text \<open>The two early returns send the final result themselves; the \<open>switch\<close> computes
  \<open>finalStatus\<close> and \<open>message\<close> (a \<open>break\<close> leaves it), here the pair returned with
  the world, and the final result is sent after it.\<close>

definition processFileUpdateAsync ::
  "('s, 'e) env \<Rightarrow> string \<Rightarrow> FileUpdateData \<Rightarrow> 's world \<Rightarrow> 's world" where
  "processFileUpdateAsync env socket updateData w0 =
    (case userService_GetUserByApiKey env (ApiKey updateData) w0 of
       (Inl err, w1) \<Rightarrow>
         sendFinalResult socket updateData ''error'' (''Invalid API key: '' @ Error env err) w1
     | (Inr user, w1) \<Rightarrow>
        (let userID = User_ID user in
         case ensureWorkspace env userID (WorkspacePath updateData) (FilePath updateData) w1 of
           (Inl err, w2) \<Rightarrow>
             sendFinalResult socket updateData ''error''
               (''Failed to ensure workspace: '' @ go_Error env err) w2
         | (Inr workspaceID, w2) \<Rightarrow>
            (case
              (if Event updateData = ''initial_scan'' \<or> Event updateData = ''added'' then
                 (case workspaceService_GetByPath env userID workspaceID (FilePath updateData) w2 of
                    (Inl err, w3) \<Rightarrow>
                      if IsNotFound env err then
                        (case workspaceService_Create env
                                \<lparr>Create_Path = FilePath updateData,
                                 Create_Content = Content updateData,
                                 Create_Hash = Hash updateData,
                                 Create_UserID = userID,
                                 Create_WorkspaceID = workspaceID\<rparr> w3 of
                           (Inl createErr, w4) \<Rightarrow>
                             ((''error'', ''Failed to create file: '' @ Error env createErr), w4)
                         | (Inr created, w4) \<Rightarrow>
                             (case workspaceService_GetAndSave env
                                     (getAndSaveReq userID workspaceID updateData) w4 of
                                (err', w5) \<Rightarrow> ((''success'', ''File created successfully''), w5)))
                      else ((''error'', ''Error checking for existing file: '' @ Error env err), w3)
                  | (Inr existingFile, w3) \<Rightarrow>
                      if WorkspaceFile_Hash existingFile = Hash updateData then
                        ((''success'', ''File is already up-to-date''), w3)
                      else
                        (case workspaceService_Update env
                                \<lparr>Update_ID = WorkspaceFile_ID existingFile,
                                 Update_Content = Some (Content updateData),
                                 Update_Hash = Some (Hash updateData)\<rparr> w3 of
                           (Inl updateErr, w4) \<Rightarrow>
                             ((''error'',
                              ''Failed to update existing file: '' @ Error env updateErr), w4)
                         | (Inr updated, w4) \<Rightarrow>
                             ((''success'', ''File updated successfully''), w4)))
               else if Event updateData = ''modified'' then
                 (case workspaceService_GetByPath env userID workspaceID (FilePath updateData) w2 of
                    (Inl err, w3) \<Rightarrow>
                      ((''error'', ''Failed to find file for update: '' @ Error env err), w3)
                  | (Inr file, w3) \<Rightarrow>
                      (case workspaceService_Update env
                              \<lparr>Update_ID = WorkspaceFile_ID file,
                               Update_Content = Some (Content updateData),
                               Update_Hash = Some (Hash updateData)\<rparr> w3 of
                         (Inl err, w4) \<Rightarrow>
                           ((''error'', ''Failed to update file: '' @ Error env err), w4)
                       | (Inr updated, w4) \<Rightarrow>
                           (case workspaceService_GetAndSave env
                                   (getAndSaveReq userID workspaceID updateData) w4 of
                              (err', w5) \<Rightarrow> ((''success'', ''File updated successfully''), w5))))
               else if Event updateData = ''deleted'' then
                 (case workspaceService_GetByPath env userID workspaceID (FilePath updateData) w2 of
                    (Inl err, w3) \<Rightarrow>
                      ((''error'', ''Failed to find file for deletion: '' @ Error env err), w3)
                  | (Inr file, w3) \<Rightarrow>
                      (case workspaceService_Delete env (WorkspaceFile_ID file) w3 of
                         (Some err, w4) \<Rightarrow>
                           ((''error'', ''Failed to delete file: '' @ Error env err), w4)
                       | (None, w4) \<Rightarrow> ((''success'', ''File deleted successfully''), w4)))
               else ((''error'', ''Unknown event type: '' @ Event updateData), w2))
             of ((finalStatus, message), w') \<Rightarrow>
                  sendFinalResult socket updateData finalStatus message w')))"

subsection \<open>The handlers of the file-change channel\<close>

definition handleFileUpdate ::
  "('s, 'e) env \<Rightarrow> string \<Rightarrow> string \<Rightarrow> 's world \<Rightarrow> iface \<times> 's world" where
  "handleFileUpdate env socket data w =
     (case Unmarshal_FileUpdateData env data of
        Inl err \<Rightarrow>
          (IMap [''status'' \<mapsto> IString ''error'',
                 ''message'' \<mapsto> IString ''Invalid data format''], w)
      | Inr updateData \<Rightarrow>
          (let immediateAck = \<lparr>AckResponse_ID = ID updateData, Status = ''received'',
                                Message = ''File update received, processing...''\<rparr>
           in (IAckResponse immediateAck, log_event (Go socket updateData) w)))"

text \<open>The type assertions \<open>v.(string)\<close> and \<open>v.(float64)\<close> on the value found under a
  key (\<open>None\<close>: the key is absent, or the value has another type).\<close>

fun assert_string :: "iface option \<Rightarrow> string option" where
  "assert_string (Some (IString s)) = Some s"
| "assert_string _ = None"

fun assert_float64 :: "iface option \<Rightarrow> float64 option" where
  "assert_float64 (Some (IFloat64 f)) = Some f"
| "assert_float64 _ = None"

definition zero_FileUpdateData :: FileUpdateData where
  "zero_FileUpdateData =
     \<lparr>ID = '''', FilePath = '''', Hash = '''', Event = '''', Content = '''',
      PreviousHash = '''', Timestamp = 0, ApiKey = '''', WorkspacePath = ''''\<rparr>"

definition handleFileUpdateFromObject ::
  "('s, 'e) env \<Rightarrow> string \<Rightarrow> EventPayload \<Rightarrow> 's world \<Rightarrow> iface \<times> 's world" where
  "handleFileUpdateFromObject env socket data w =
     (case Data data of
        [] \<Rightarrow> (IAckResponse \<lparr>AckResponse_ID = '''', Status = ''error'',
                               Message = ''No data provided''\<rparr>, w)
      | IMap dataMap # rest \<Rightarrow>
          (let updateData = zero_FileUpdateData;
               updateData = (case assert_string (dataMap ''id'') of
                    Some id' \<Rightarrow> updateData\<lparr>ID := id'\<rparr> | None \<Rightarrow> updateData);
               updateData = (case assert_string (dataMap ''filePath'') of
                    Some filePath \<Rightarrow> updateData\<lparr>FilePath := filePath\<rparr> | None \<Rightarrow> updateData);
               updateData = (case assert_string (dataMap ''event'') of
                    Some event \<Rightarrow> updateData\<lparr>Event := event\<rparr> | None \<Rightarrow> updateData);
               updateData = (case assert_string (dataMap ''hash'') of
                    Some hash \<Rightarrow> updateData\<lparr>Hash := hash\<rparr> | None \<Rightarrow> updateData);
               updateData = (case assert_string (dataMap ''content'') of
                    Some content \<Rightarrow> updateData\<lparr>Content := content\<rparr> | None \<Rightarrow> updateData);
               updateData = (case assert_float64 (dataMap ''timestamp'') of
                    Some timestamp \<Rightarrow> updateData\<lparr>Timestamp := int64_of_float64 env timestamp\<rparr>
                  | None \<Rightarrow> updateData);
               updateData = (case assert_string (dataMap ''apiKey'') of
                    Some apiKey \<Rightarrow> updateData\<lparr>ApiKey := apiKey\<rparr> | None \<Rightarrow> updateData);
               updateData = (case assert_string (dataMap ''workspacePath'') of
                    Some workspacePath \<Rightarrow> updateData\<lparr>WorkspacePath := workspacePath\<rparr>
                  | None \<Rightarrow> updateData);
               immediateAck = \<lparr>AckResponse_ID = ID updateData, Status = ''received'',
                                Message = ''File update received, processing...''\<rparr>
           in (IAckResponse immediateAck, log_event (Go socket updateData) w))
      | other # rest \<Rightarrow>
          (IAckResponse \<lparr>AckResponse_ID = '''', Status = ''error'',
                         Message = ''Invalid data format''\<rparr>, w))"

text \<open>\<open>processFileUpdateData\<close> reads \<open>data.Data[0]\<close>; on an empty slice Go panics (the
  only caller has checked the length before).\<close>

definition processFileUpdateData ::
  "('s, 'e) env \<Rightarrow> string \<Rightarrow> EventPayload \<Rightarrow> 's world \<Rightarrow> 's world" where
  "processFileUpdateData env socket data w =
     (case Data data of
        [] \<Rightarrow> log_event (Panic ''index out of range'') w
      | IMap m # rest \<Rightarrow>
          (case handleFileUpdateFromObject env socket data w of
             (response, w') \<Rightarrow> sendACKWithLock data response w')
      | IString v # rest \<Rightarrow>
          (case handleFileUpdate env socket v w of
             (response, w') \<Rightarrow> sendACKWithLock data response w')
      | other # rest \<Rightarrow>
          sendErrorACK data ''Invalid data format - expected string or object'' w)"

definition registerFileUpdateHandler ::
  "('s, 'e) env \<Rightarrow> string \<Rightarrow> EventPayload \<Rightarrow> 's world \<Rightarrow> 's world" where
  "registerFileUpdateHandler env socket data w =
     (if length (Data data) = 0 then sendErrorACK data ''No data provided'' w
      else processFileUpdateData env socket data w)"

subsection \<open>The other handlers\<close>

text \<open>The handler of \<open>disconnect\<close> only writes to the log.\<close>

definition registerDisconnectHandler ::
  "('s, 'e) env \<Rightarrow> string \<Rightarrow> EventPayload \<Rightarrow> 's world \<Rightarrow> 's world" where
  "registerDisconnectHandler env socket data w = w"

text \<open>Reading the clock (\<open>time.Now()\<close>) is no event of the trace; it may change the
  state of the environment.\<close>

definition clock :: "('s \<Rightarrow> 'a \<times> 's) \<Rightarrow> 's world \<Rightarrow> 'a \<times> 's world" where
  "clock f w = (case f (store w) of (r, s') \<Rightarrow> (r, w\<lparr>store := s'\<rparr>))"

definition handleTestPing ::
  "('s, 'e) env \<Rightarrow> string \<Rightarrow> string \<Rightarrow> 's world \<Rightarrow> 's world" where
  "handleTestPing env socket data w =
     (case Unmarshal_TestPingData env data of
        Inl err \<Rightarrow> w
      | Inr pingData \<Rightarrow>
          (case clock (Now_UnixMilli env) w of
             (timestamp, w1) \<Rightarrow>
               (case clock (Now_Format_RFC3339 env) w1 of
                  (serverTime, w2) \<Rightarrow>
                    (let pongData = IMap [''timestamp'' \<mapsto> IInt64 timestamp,
                                          ''serverTime'' \<mapsto> IString serverTime,
                                          ''message'' \<mapsto> IString ''Pong from MonkeyCode server'',
                                          ''receivedPing'' \<mapsto> ITestPingData pingData,
                                          ''socketId'' \<mapsto> IString socket,
                                          ''serverStatus'' \<mapsto> IString ''ok'']
                     in log_event (Emit socket ''test:pong'' pongData) w2))))"

definition registerTestPingHandler ::
  "('s, 'e) env \<Rightarrow> string \<Rightarrow> EventPayload \<Rightarrow> 's world \<Rightarrow> 's world" where
  "registerTestPingHandler env socket data w =
     (if length (Data data) > 0
      then (case Data data of
              IString dataStr # rest \<Rightarrow> handleTestPing env socket dataStr w
            | _ \<Rightarrow> w)
      else w)"

definition handleHeartbeat ::
  "('s, 'e) env \<Rightarrow> string \<Rightarrow> string \<Rightarrow> 's world \<Rightarrow> iface \<times> 's world" where
  "handleHeartbeat env socket data w =
     (case Unmarshal_HeartbeatData env data of
        Inl err \<Rightarrow>
          (IMap [''status'' \<mapsto> IString ''error'',
                 ''message'' \<mapsto> IString ''Invalid heartbeat data''], w)
      | Inr heartbeatData \<Rightarrow>
          (case clock (Now_UnixMilli env) w of
             (serverTime, w1) \<Rightarrow>
               (IMap [''status'' \<mapsto> IString ''ok'',
                      ''serverTime'' \<mapsto> IInt64 serverTime,
                      ''socketId'' \<mapsto> IString socket], w1)))"

definition registerHeartbeatHandler ::
  "('s, 'e) env \<Rightarrow> string \<Rightarrow> EventPayload \<Rightarrow> 's world \<Rightarrow> 's world" where
  "registerHeartbeatHandler env socket data w =
     (if length (Data data) = 0 then sendErrorACK data ''No heartbeat data'' w
      else (case Data data of
              IString dataStr # rest \<Rightarrow>
                (case handleHeartbeat env socket dataStr w of
                   (response, w') \<Rightarrow>
                     if Ack data then log_event (AckCall response) w' else w')
            | _ \<Rightarrow> w))"

definition registerWorkspaceStatsHandler ::
  "('s, 'e) env \<Rightarrow> string \<Rightarrow> EventPayload \<Rightarrow> 's world \<Rightarrow> 's world" where
  "registerWorkspaceStatsHandler env socket data w =
     (let response = IMap [''status'' \<mapsto> IString ''not_implemented'',
                           ''message'' \<mapsto>
                              IString ''Workspace stats functionality is not available.'']
      in if Ack data then log_event (AckCall response) w else w)"

text \<open>\<open>handleConnection\<close> sends the server status and registers the five handlers;
  \<open>socket_On\<close> is the dispatch socket.io then does on the name of an incoming event.\<close>

definition handleConnection :: "string \<Rightarrow> 's world \<Rightarrow> 's world" where
  "handleConnection socket w =
     sendServerStatus socket ''ready'' ''Server is ready to receive updates'' w"

definition socket_On ::
  "('s, 'e) env \<Rightarrow> string \<Rightarrow> string \<Rightarrow> EventPayload \<Rightarrow> 's world \<Rightarrow> 's world" where
  "socket_On env socket name data w =
     (if name = ''disconnect'' then registerDisconnectHandler env socket data w
      else if name = ''file:update'' then registerFileUpdateHandler env socket data w
      else if name = ''test:ping'' then registerTestPingHandler env socket data w
      else if name = ''heartbeat'' then registerHeartbeatHandler env socket data w
      else if name = ''workspace:stats'' then registerWorkspaceStatsHandler env socket data w
      else w)"

subsection \<open>Runs of the handler\<close>

text \<open>What can happen to a handler after its construction: a client connects, an event
  arrives on a connection, a reconciliation goroutine runs, the server status is
  broadcast. A run is any sequence of these (more than the scheduler allows: a goroutine
  runs only after it was started).\<close>

datatype action =
    Connection string
  | Incoming string string EventPayload
  | Goroutine string FileUpdateData
  | BroadcastStatus string string

fun step :: "('s, 'e) env \<Rightarrow> action \<Rightarrow> 's world \<Rightarrow> 's world" where
  "step env (Connection socket) w = handleConnection socket w"
| "step env (Incoming socket name data) w = socket_On env socket name data w"
| "step env (Goroutine socket updateData) w = processFileUpdateAsync env socket updateData w"
| "step env (BroadcastStatus status message) w = BroadcastServerStatus status message w"

fun run :: "('s, 'e) env \<Rightarrow> action list \<Rightarrow> 's world \<Rightarrow> 's world" where
  "run env [] w = w"
| "run env (a # as) w = run env as (step env a w)"

subsection \<open>Reading a trace\<close>

text \<open>The calls of the workspace store among the events: all of them, those of its file
  methods, and those that change a file.\<close>

fun is_store_call :: "event \<Rightarrow> bool" where
  "is_store_call (Call_EnsureWorkspace u p n) = True"
| "is_store_call (Call_GetByPath u ws p) = True"
| "is_store_call (Call_Create r) = True"
| "is_store_call (Call_Update r) = True"
| "is_store_call (Call_Delete i) = True"
| "is_store_call (Call_GetAndSave r) = True"
| "is_store_call _ = False"

fun is_file_call :: "event \<Rightarrow> bool" where
  "is_file_call (Call_GetByPath u ws p) = True"
| "is_file_call (Call_Create r) = True"
| "is_file_call (Call_Update r) = True"
| "is_file_call (Call_Delete i) = True"
| "is_file_call (Call_GetAndSave r) = True"
| "is_file_call _ = False"

fun is_mutation :: "event \<Rightarrow> bool" where
  "is_mutation (Call_Create r) = True"
| "is_mutation (Call_Update r) = True"
| "is_mutation (Call_Delete i) = True"
| "is_mutation _ = False"

fun is_create :: "event \<Rightarrow> bool" where
  "is_create (Call_Create r) = True"
| "is_create _ = False"

text \<open>The final-result messages on a socket and the goroutines started.\<close>

fun final_results :: "string \<Rightarrow> event list \<Rightarrow> iface list" where
  "final_results socket [] = []"
| "final_results socket (Emit s name v # es) =
     (if s = socket \<and> name = ''file:update:ack'' then v # final_results socket es
      else final_results socket es)"
| "final_results socket (e # es) = final_results socket es"

fun started :: "event list \<Rightarrow> (string \<times> FileUpdateData) list" where
  "started [] = []"
| "started (Go s u # es) = (s, u) # started es"
| "started (e # es) = started es"

text \<open>The events a computation added to the trace of the world it started from.\<close>

definition new_events :: "'s world \<Rightarrow> 's world \<Rightarrow> event list" where
  "new_events w w' = drop (length (trace w)) (trace w')"

definition final_result :: "FileUpdateData \<Rightarrow> string \<Rightarrow> string \<Rightarrow> iface" where
  "final_result updateData status message =
     IMap [''id'' \<mapsto> IString (ID updateData),
           ''status'' \<mapsto> IString status,
           ''message'' \<mapsto> IString message,
           ''file'' \<mapsto> IString (FilePath updateData)]"

subsection \<open>A small environment to run the handler in\<close>

text \<open>An in-memory stand-in for the collaborators, used to evaluate the handler on
  concrete notifications: one user (API key \<open>key-1\<close>), one workspace, the files of the
  store kept by path, errors as their text, an indexer that always fails and a JSON
  decoder that accepts the empty object only.\<close>

type_synonym stub_store = "(string \<times> WorkspaceFile) list"

definition stub_env :: "(stub_store, string) env" where
  "stub_env =
     \<lparr>GetUserByApiKey = (\<lambda>apiKey s.
         (if apiKey = ''key-1'' then Inr \<lparr>User_ID = ''u1''\<rparr> else Inl ''unknown api key'', s)),
      EnsureWorkspace = (\<lambda>userID path name s. (Inr \<lparr>Workspace_ID = ''ws1''\<rparr>, s)),
      GetByPath = (\<lambda>userID workspaceID path s.
         (case map_of s path of None \<Rightarrow> Inl ''not found'' | Some f \<Rightarrow> Inr f, s)),
      Create = (\<lambda>req s.
         (let f = \<lparr>WorkspaceFile_ID = ''id:'' @ Create_Path req,
                   WorkspaceFile_Hash = Create_Hash req\<rparr>
          in (Inr f, (Create_Path req, f) # s))),
      Update = (\<lambda>req s.
         (let h = (case Update_Hash req of Some h \<Rightarrow> h | None \<Rightarrow> '''')
          in (Inr \<lparr>WorkspaceFile_ID = Update_ID req, WorkspaceFile_Hash = h\<rparr>,
              map (\<lambda>(p, f). if WorkspaceFile_ID f = Update_ID req
                              then (p, f\<lparr>WorkspaceFile_Hash := h\<rparr>) else (p, f)) s))),
      Delete = (\<lambda>fileID s. (None, filter (\<lambda>(p, f). WorkspaceFile_ID f \<noteq> fileID) s)),
      GetAndSave = (\<lambda>req s. (Some ''indexer unavailable'', s)),
      IsNotFound = (\<lambda>e. e = ''not found''),
      Error = (\<lambda>e. e),
      Unmarshal_FileUpdateData = (\<lambda>d.
         if d = ''{}'' then Inr zero_FileUpdateData else Inl ''invalid character''),
      Unmarshal_TestPingData = (\<lambda>d. Inl ''invalid character''),
      Unmarshal_HeartbeatData = (\<lambda>d. Inl ''invalid character''),
      int64_of_float64 = (\<lambda>f. 0),
      Now_UnixMilli = (\<lambda>s. (0, s)),
      Now_Format_RFC3339 = (\<lambda>s. (''1970-01-01T00:00:00Z'', s))\<rparr>"

definition stub_world :: "stub_store \<Rightarrow> stub_store world" where
  "stub_world files = \<lparr>store = files, handler = NewSocketHandler, trace = []\<rparr>"

definition notification :: "string \<Rightarrow> string \<Rightarrow> string \<Rightarrow> string \<Rightarrow> FileUpdateData" where
  "notification event filePath hash workspacePath =
     \<lparr>ID = ''n1'', FilePath = filePath, Hash = hash, Event = event, Content = ''package a'',
      PreviousHash = '''', Timestamp = 0, ApiKey = ''key-1'', WorkspacePath = workspacePath\<rparr>"

text \<open>Two variations of the small environment. In the first the store cannot ensure a
  workspace. The second has a JSON decoder that answers three texts as Go's
  \<open>encoding/json\<close> does: the empty object \<open>{}\<close> decodes to the zero value, \<open>{"id":"n1"}\<close> to
  the zero value with that id, and \<open>{"id":5}\<close>, well-formed JSON with a number where the
  field \<open>ID\<close> is a string, is refused with an \<open>UnmarshalTypeError\<close>. (\<open>CHR 0x22\<close> is the
  double quote.)\<close>

definition stub_env_no_workspace :: "(stub_store, string) env" where
  "stub_env_no_workspace =
     stub_env\<lparr>EnsureWorkspace := (\<lambda>userID path name s. (Inl ''store unavailable'', s))\<rparr>"

definition json_object_id_n1 :: string where
  "json_object_id_n1 =
     ''{'' @ [CHR 0x22] @ ''id'' @ [CHR 0x22] @ '':'' @ [CHR 0x22] @ ''n1'' @ [CHR 0x22] @ ''}''"

definition json_object_id_5 :: string where
  "json_object_id_5 = ''{'' @ [CHR 0x22] @ ''id'' @ [CHR 0x22] @ '':5}''"

definition stub_env_json :: "(stub_store, string) env" where
  "stub_env_json =
     stub_env\<lparr>Unmarshal_FileUpdateData := (\<lambda>d.
        if d = ''{}'' then Inr zero_FileUpdateData
        else if d = json_object_id_n1 then Inr (zero_FileUpdateData\<lparr>ID := ''n1''\<rparr>)
        else if d = json_object_id_5
          then Inl (''json: cannot unmarshal number into Go struct field ''
                      @ ''FileUpdateData.id of type string'')
        else Inl ''invalid character'')\<rparr>"

subsection \<open>What the decoder makes of a payload\<close>

text \<open>The notification a structured map stands for, in the words of the specification:
  each field is the string found under its key; a field whose key is absent or holds a
  value of another type takes its zero value; the timestamp is the number under its key,
  converted; \<open>previousHash\<close> is not among the keys.\<close>

definition decoded_map :: "('s, 'e) env \<Rightarrow> (string \<Rightarrow> iface option) \<Rightarrow> FileUpdateData" where
  "decoded_map env m =
     \<lparr>ID = (case assert_string (m ''id'') of Some s \<Rightarrow> s | None \<Rightarrow> ''''),
      FilePath = (case assert_string (m ''filePath'') of Some s \<Rightarrow> s | None \<Rightarrow> ''''),
      Hash = (case assert_string (m ''hash'') of Some s \<Rightarrow> s | None \<Rightarrow> ''''),
      Event = (case assert_string (m ''event'') of Some s \<Rightarrow> s | None \<Rightarrow> ''''),
      Content = (case assert_string (m ''content'') of Some s \<Rightarrow> s | None \<Rightarrow> ''''),
      PreviousHash = '''',
      Timestamp = (case assert_float64 (m ''timestamp'') of
                     Some t \<Rightarrow> int64_of_float64 env t | None \<Rightarrow> 0),
      ApiKey = (case assert_string (m ''apiKey'') of Some s \<Rightarrow> s | None \<Rightarrow> ''''),
      WorkspacePath =
        (case assert_string (m ''workspacePath'') of Some s \<Rightarrow> s | None \<Rightarrow> '''')\<rparr>"

text \<open>\<open>decodes env data u\<close>: the first argument of the payload is a structured map that
  stands for \<open>u\<close>, or a string that \<open>json.Unmarshal\<close> decodes into \<open>u\<close> without error.\<close>

definition decodes :: "('s, 'e) env \<Rightarrow> EventPayload \<Rightarrow> FileUpdateData \<Rightarrow> bool" where
  "decodes env data u =
     (case Data data of
        IMap m # rest \<Rightarrow> u = decoded_map env m
      | IString v # rest \<Rightarrow> Unmarshal_FileUpdateData env v = Inr u
      | _ \<Rightarrow> False)"

subsection \<open>Relating two runs of a computation\<close>

text \<open>\<open>relates I F S\<close>: from worlds related by \<open>I\<close>, the computation \<open>F\<close> leads to worlds
  related by \<open>S\<close>; \<open>relatesP\<close> is the same for a computation that also returns a value,
  which must then be the same in both runs. The handler's computations are built from
  calls of the collaborators by \<open>case\<close> and \<open>if\<close>, and these preserve both.\<close>

definition relates ::
  "('w \<Rightarrow> 'w \<Rightarrow> bool) \<Rightarrow> ('w \<Rightarrow> 'w) \<Rightarrow> ('w \<Rightarrow> 'w \<Rightarrow> bool) \<Rightarrow> bool" where
  "relates I F S = (\<forall>w1 w2. I w1 w2 \<longrightarrow> S (F w1) (F w2))"

definition relatesP ::
  "('w \<Rightarrow> 'w \<Rightarrow> bool) \<Rightarrow> ('w \<Rightarrow> 'a \<times> 'w) \<Rightarrow> ('w \<Rightarrow> 'w \<Rightarrow> bool) \<Rightarrow> bool" where
  "relatesP I M S =
     (\<forall>w1 w2. I w1 w2 \<longrightarrow> fst (M w1) = fst (M w2) \<and> S (snd (M w1)) (snd (M w2)))"

text \<open>Two worlds that differ in the handler's own fields only.\<close>

definition shifted :: "SocketHandler \<Rightarrow> 's world \<Rightarrow> 's world \<Rightarrow> bool" where
  "shifted h w1 w2 = (w2 = w1\<lparr>handler := h\<rparr>)"

text \<open>One world whose trace extends \<open>t0\<close> without a final result on the socket, and one
  whose trace extends it with exactly one final result, that of notification \<open>u\<close>.\<close>

definition quiet :: "string \<Rightarrow> event list \<Rightarrow> 's world \<Rightarrow> 's world \<Rightarrow> bool" where
  "quiet socket t0 w1 w2 =
     (w1 = w2 \<and> (\<exists>xs. trace w1 = t0 @ xs \<and> final_results socket xs = []))"

definition answered ::
  "string \<Rightarrow> FileUpdateData \<Rightarrow> event list \<Rightarrow> 's world \<Rightarrow> 's world \<Rightarrow> bool" where
  "answered socket u t0 w1 w2 =
     (w1 = w2 \<and> (\<exists>xs status message. trace w1 = t0 @ xs \<and>
                    final_results socket xs = [final_result u status message]))"

text \<open>One world whose trace extends \<open>t0\<close> without a call of the store's create.\<close>

definition createless :: "event list \<Rightarrow> 's world \<Rightarrow> 's world \<Rightarrow> bool" where
  "createless t0 w1 w2 =
     (w1 = w2 \<and> (\<exists>xs. trace w1 = t0 @ xs \<and> filter is_create xs = []))"

section \<open>Properties\<close>

subsection \<open>Rules for related runs\<close>

lemma relates_bind:
  assumes "relatesP I M I" and "\<And>r. relates I (K r) S"
  shows "relates I (\<lambda>w. case_prod K (M w)) S"
proof -
  have "S (case_prod K (M w1)) (case_prod K (M w2))" if "I w1 w2" for w1 w2
  proof -
    from assms(1) that have "fst (M w1) = fst (M w2)" and "I (snd (M w1)) (snd (M w2))"
      by (simp_all add: relatesP_def)
    with assms(2) [of "fst (M w1)"] show ?thesis
      by (simp add: relates_def case_prod_unfold)
  qed
  then show ?thesis by (simp add: relates_def)
qed

lemma relatesP_bind:
  assumes "relatesP I M I" and "\<And>r. relatesP I (K r) S"
  shows "relatesP I (\<lambda>w. case_prod K (M w)) S"
proof -
  have "fst (case_prod K (M w1)) = fst (case_prod K (M w2))
          \<and> S (snd (case_prod K (M w1))) (snd (case_prod K (M w2)))" if "I w1 w2" for w1 w2
  proof -
    from assms(1) that have "fst (M w1) = fst (M w2)" and "I (snd (M w1)) (snd (M w2))"
      by (simp_all add: relatesP_def)
    with assms(2) [of "fst (M w1)"] show ?thesis
      by (simp add: relatesP_def case_prod_unfold)
  qed
  then show ?thesis by (simp add: relatesP_def)
qed

lemma relates_sum:
  assumes "\<And>e. relates I (A e) S" and "\<And>x. relates I (B x) S"
  shows "relates I (\<lambda>w. case_sum (\<lambda>e. A e w) (\<lambda>x. B x w) r) S"
  using assms by (cases r) (simp_all add: relates_def)

lemma relatesP_sum:
  assumes "\<And>e. relatesP I (A e) S" and "\<And>x. relatesP I (B x) S"
  shows "relatesP I (\<lambda>w. case_sum (\<lambda>e. A e w) (\<lambda>x. B x w) r) S"
  using assms by (cases r) (simp_all add: relatesP_def)

lemma relates_option:
  assumes "relates I A S" and "\<And>x. relates I (B x) S"
  shows "relates I (\<lambda>w. case_option (A w) (\<lambda>x. B x w) r) S"
  using assms by (cases r) (simp_all add: relates_def)

lemma relatesP_option:
  assumes "relatesP I A S" and "\<And>x. relatesP I (B x) S"
  shows "relatesP I (\<lambda>w. case_option (A w) (\<lambda>x. B x w) r) S"
  using assms by (cases r) (simp_all add: relatesP_def)

lemma relates_prod:
  assumes "\<And>a b. relates I (A a b) S"
  shows "relates I (\<lambda>w. case_prod (\<lambda>a b. A a b w) r) S"
  using assms by (cases r) (simp add: relates_def)

lemma relates_if:
  assumes "relates I A S" and "relates I B S"
  shows "relates I (\<lambda>w. if c then A w else B w) S"
  using assms by (simp add: relates_def)

lemma relatesP_if:
  assumes "relatesP I A S" and "relatesP I B S"
  shows "relatesP I (\<lambda>w. if c then A w else B w) S"
  using assms by (simp add: relatesP_def)

lemmas relates_rules = relates_bind relatesP_bind relates_sum relatesP_sum relates_option
  relatesP_option relates_prod relates_if relatesP_if

lemmas service_defs = userService_GetUserByApiKey_def workspaceUsecase_EnsureWorkspace_def
  workspaceService_GetByPath_def workspaceService_Create_def workspaceService_Update_def
  workspaceService_Delete_def workspaceService_GetAndSave_def

subsection \<open>The handler's own fields are carried along by reconciliation\<close>

lemma shifted_external: "relatesP (shifted h) (external e f) (shifted h)"
  by (simp add: relatesP_def shifted_def external_def split: prod.splits)

lemma shifted_return: "relatesP (shifted h) (Pair a) (shifted h)"
  by (simp add: relatesP_def)

lemma shifted_sendFinalResult: "relates (shifted h) (sendFinalResult socket u st msg) (shifted h)"
  by (simp add: relates_def shifted_def sendFinalResult_def log_event_def)

lemma shifted_ensureWorkspace:
  "relatesP (shifted h) (ensureWorkspace env userID workspacePath filePath) (shifted h)"
  unfolding ensureWorkspace_def[abs_def] workspaceUsecase_EnsureWorkspace_def
  by (intro relates_rules shifted_external shifted_return)

lemma shifted_processFileUpdateAsync:
  "relates (shifted h) (processFileUpdateAsync env socket u) (shifted h)"
  unfolding processFileUpdateAsync_def[abs_def] service_defs Let_def
  by (intro relates_rules shifted_external shifted_return shifted_sendFinalResult
        shifted_ensureWorkspace)

subsection \<open>Reconciliation sends exactly one final result\<close>

lemma final_results_append:
  "final_results socket (xs @ ys) = final_results socket xs @ final_results socket ys"
  by (induction socket xs rule: final_results.induct) simp_all

lemma quiet_external:
  assumes "final_results socket [e] = []"
  shows "relatesP (quiet socket t0) (external e f) (quiet socket t0)"
  using assms
  by (auto simp: relatesP_def quiet_def external_def final_results_append split: prod.splits)

lemma quiet_return: "relatesP (quiet socket t0) (Pair a) (quiet socket t0)"
  by (simp add: relatesP_def)

lemma sendFinalResult_eq:
  "sendFinalResult socket u st msg w =
     log_event (Emit socket ''file:update:ack'' (final_result u st msg)) w"
  by (simp add: sendFinalResult_def final_result_def)

lemma quiet_sendFinalResult:
  "relates (quiet socket t0) (sendFinalResult socket u st msg) (answered socket u t0)"
  unfolding relates_def quiet_def answered_def sendFinalResult_eq log_event_def
  by (fastforce simp: final_results_append)

lemma quiet_ensureWorkspace:
  "relatesP (quiet socket t0) (ensureWorkspace env userID workspacePath filePath)
     (quiet socket t0)"
  unfolding ensureWorkspace_def[abs_def] workspaceUsecase_EnsureWorkspace_def
  by (intro relates_rules quiet_external quiet_return) simp

lemma quiet_processFileUpdateAsync:
  "relates (quiet socket t0) (processFileUpdateAsync env socket u) (answered socket u t0)"
  unfolding processFileUpdateAsync_def[abs_def] service_defs Let_def
  by (intro relates_rules quiet_external quiet_return quiet_sendFinalResult
        quiet_ensureWorkspace) simp_all

lemma exactly_one_final_result:
  "\<exists>status message.
     final_results socket (new_events w (processFileUpdateAsync env socket u w)) =
       [final_result u status message]"
proof -
  have "quiet socket (trace w) w w"
    by (simp add: quiet_def)
  with quiet_processFileUpdateAsync [of socket "trace w" env u]
  have "answered socket u (trace w) (processFileUpdateAsync env socket u w)
          (processFileUpdateAsync env socket u w)"
    by (simp add: relates_def)
  then show ?thesis
    unfolding answered_def new_events_def by fastforce
qed

subsection \<open>Reconciliation, path by path\<close>

lemmas reconcile_defs = processFileUpdateAsync_def service_defs external_def
  ensureWorkspace_def sendFinalResult_eq log_event_def new_events_def go_Error_def Let_def

lemmas stub_defs = stub_env_def stub_world_def notification_def Let_def

text \<open>Claim C1. An \<open>initial_scan\<close> or \<open>added\<close> notification with a credential that
  resolves to a user and a non-empty workspace root, for which the store's lookup by user,
  workspace and path finds a file whose stored hash equals the notification's hash, ends in
  the final result \<open>success\<close>, "File is already up-to-date"; the only calls made are the
  three lookups, so that nothing is created, updated or deleted.\<close>

theorem up_to_date_is_idempotent:
  assumes "Event u = ''initial_scan'' \<or> Event u = ''added''"
    and "GetUserByApiKey env (ApiKey u) (store w) = (Inr user, s1)"
    and "WorkspacePath u \<noteq> ''''"
    and "EnsureWorkspace env (User_ID user) (WorkspacePath u) '''' s1 = (Inr ws, s2)"
    and "GetByPath env (User_ID user) (Workspace_ID ws) (FilePath u) s2 = (Inr existing, s3)"
    and "WorkspaceFile_Hash existing = Hash u"
  shows "processFileUpdateAsync env socket u w =
           w\<lparr>store := s3,
             trace := trace w @
               [Call_GetUserByApiKey (ApiKey u),
                Call_EnsureWorkspace (User_ID user) (WorkspacePath u) '''',
                Call_GetByPath (User_ID user) (Workspace_ID ws) (FilePath u),
                Emit socket ''file:update:ack''
                  (final_result u ''success'' ''File is already up-to-date'')]\<rparr>
         \<and> filter is_mutation (new_events w (processFileUpdateAsync env socket u w)) = []"
  using assms by (simp add: reconcile_defs)

text \<open>In the small environment: the same \<open>added\<close> notification twice on an empty
  store. The first run creates the file, the second finds it up to date.\<close>

theorem up_to_date_is_idempotent_witness:
  "trace (processFileUpdateAsync stub_env ''s1'' (notification ''added'' ''a.go'' ''h1'' ''/w'')
           (processFileUpdateAsync stub_env ''s1'' (notification ''added'' ''a.go'' ''h1'' ''/w'')
              (stub_world []))) =
     [Call_GetUserByApiKey ''key-1'',
      Call_EnsureWorkspace ''u1'' ''/w'' '''',
      Call_GetByPath ''u1'' ''ws1'' ''a.go'',
      Call_Create \<lparr>Create_Path = ''a.go'', Create_Content = ''package a'', Create_Hash = ''h1'',
                   Create_UserID = ''u1'', Create_WorkspaceID = ''ws1''\<rparr>,
      Call_GetAndSave \<lparr>GetAndSave_UserID = ''u1'', GetAndSave_WorkspaceID = ''ws1'',
         GetAndSave_FileMetas = [\<lparr>FileMeta_FilePath = ''a.go'',
            FileMeta_Language = CodeLanguageTypeGo, FileMeta_Content = ''package a''\<rparr>]\<rparr>,
      Emit ''s1'' ''file:update:ack''
        (final_result (notification ''added'' ''a.go'' ''h1'' ''/w'') ''success''
           ''File created successfully''),
      Call_GetUserByApiKey ''key-1'',
      Call_EnsureWorkspace ''u1'' ''/w'' '''',
      Call_GetByPath ''u1'' ''ws1'' ''a.go'',
      Emit ''s1'' ''file:update:ack''
        (final_result (notification ''added'' ''a.go'' ''h1'' ''/w'') ''success''
           ''File is already up-to-date'')]"
proof -
  define u where "u = notification ''added'' ''a.go'' ''h1'' ''/w''"
  define w1 where "w1 = processFileUpdateAsync stub_env ''s1'' u (stub_world [])"
  define f where "f = \<lparr>WorkspaceFile_ID = ''id:a.go'', WorkspaceFile_Hash = ''h1''\<rparr>"
  have ext: "getFileExtension ''a.go'' = ''go''"
    by (simp add: getFileExtension_def)
  have w1: "w1 = \<lparr>store = [(''a.go'', f)], handler = NewSocketHandler,
      trace = [Call_GetUserByApiKey ''key-1'',
        Call_EnsureWorkspace ''u1'' ''/w'' '''',
        Call_GetByPath ''u1'' ''ws1'' ''a.go'',
        Call_Create \<lparr>Create_Path = ''a.go'', Create_Content = ''package a'',
          Create_Hash = ''h1'', Create_UserID = ''u1'', Create_WorkspaceID = ''ws1''\<rparr>,
        Call_GetAndSave \<lparr>GetAndSave_UserID = ''u1'', GetAndSave_WorkspaceID = ''ws1'',
          GetAndSave_FileMetas = [\<lparr>FileMeta_FilePath = ''a.go'',
            FileMeta_Language = CodeLanguageTypeGo, FileMeta_Content = ''package a''\<rparr>]\<rparr>,
        Emit ''s1'' ''file:update:ack''
          (final_result u ''success'' ''File created successfully'')]\<rparr>"
    by (simp add: w1_def u_def f_def reconcile_defs stub_defs getAndSaveReq_def ext
        getFileLanguage_def)
  have h1: "Event u = ''initial_scan'' \<or> Event u = ''added''"
    by (simp add: u_def notification_def)
  have h2: "GetUserByApiKey stub_env (ApiKey u) (store w1) = (Inr \<lparr>User_ID = ''u1''\<rparr>, store w1)"
    by (simp add: u_def stub_defs)
  have h3: "WorkspacePath u \<noteq> ''''"
    by (simp add: u_def notification_def)
  have h4: "EnsureWorkspace stub_env (User_ID \<lparr>User_ID = ''u1''\<rparr>) (WorkspacePath u) '''' (store w1)
              = (Inr \<lparr>Workspace_ID = ''ws1''\<rparr>, store w1)"
    by (simp add: stub_defs)
  have h5: "GetByPath stub_env (User_ID \<lparr>User_ID = ''u1''\<rparr>) (Workspace_ID \<lparr>Workspace_ID = ''ws1''\<rparr>)
              (FilePath u) (store w1) = (Inr f, store w1)"
    by (simp add: w1 u_def stub_defs)
  have h6: "WorkspaceFile_Hash f = Hash u"
    by (simp add: f_def u_def notification_def)
  from up_to_date_is_idempotent [OF h1 h2 h3 h4 h5 h6, of "''s1''"]
  have "trace (processFileUpdateAsync stub_env ''s1'' u w1) =
          trace w1 @ [Call_GetUserByApiKey ''key-1'', Call_EnsureWorkspace ''u1'' ''/w'' '''',
            Call_GetByPath ''u1'' ''ws1'' ''a.go'',
            Emit ''s1'' ''file:update:ack''
              (final_result u ''success'' ''File is already up-to-date'')]"
    by (simp add: u_def notification_def)
  then show ?thesis
    unfolding w1_def [symmetric] u_def [symmetric] by (simp add: w1)
qed

text \<open>Claim C2 says that a notification of an unknown event kind fails with "Unknown
  event type: ..." without any call of the workspace store. The event kind is looked at
  after the workspace was ensured: a \<open>renamed\<close> notification of a known user makes the store's
  \<open>EnsureWorkspace\<close> call before it fails.\<close>

theorem unknown_event_counterexample:
  "final_results ''s1''
     (new_events (stub_world [])
        (processFileUpdateAsync stub_env ''s1'' (notification ''renamed'' ''a.go'' ''h1'' ''/w'')
           (stub_world []))) =
     [final_result (notification ''renamed'' ''a.go'' ''h1'' ''/w'') ''error''
        ''Unknown event type: renamed'']
   \<and> filter is_store_call
     (new_events (stub_world [])
        (processFileUpdateAsync stub_env ''s1'' (notification ''renamed'' ''a.go'' ''h1'' ''/w'')
           (stub_world []))) =
     [Call_EnsureWorkspace ''u1'' ''/w'' '''']"
  by (simp add: reconcile_defs stub_defs)

text \<open>Claim C2, amended. A notification whose event kind is none of \<open>initial_scan\<close>,
  \<open>added\<close>, \<open>modified\<close>, \<open>deleted\<close>, with a credential that resolves to a user, a non-empty
  workspace root and a successful \<open>EnsureWorkspace\<close>, fails with "Unknown event type: "
  followed by the kind; \<open>EnsureWorkspace\<close> is the only call of the store, no file method
  is called.\<close>

theorem unknown_event_after_ensure:
  assumes "Event u \<noteq> ''initial_scan''" and "Event u \<noteq> ''added''"
    and "Event u \<noteq> ''modified''" and "Event u \<noteq> ''deleted''"
    and "GetUserByApiKey env (ApiKey u) (store w) = (Inr user, s1)"
    and "WorkspacePath u \<noteq> ''''"
    and "EnsureWorkspace env (User_ID user) (WorkspacePath u) '''' s1 = (Inr ws, s2)"
  shows "processFileUpdateAsync env socket u w =
           w\<lparr>store := s2,
             trace := trace w @
               [Call_GetUserByApiKey (ApiKey u),
                Call_EnsureWorkspace (User_ID user) (WorkspacePath u) '''',
                Emit socket ''file:update:ack''
                  (final_result u ''error'' (''Unknown event type: '' @ Event u))]\<rparr>
         \<and> filter is_file_call (new_events w (processFileUpdateAsync env socket u w)) = []"
  using assms by (simp add: reconcile_defs)

theorem unknown_event_after_ensure_witness:
  "processFileUpdateAsync stub_env ''s1'' (notification ''renamed'' ''a.go'' ''h1'' ''/w'')
     (stub_world []) =
   \<lparr>store = [], handler = NewSocketHandler,
    trace = [Call_GetUserByApiKey ''key-1'', Call_EnsureWorkspace ''u1'' ''/w'' '''',
      Emit ''s1'' ''file:update:ack''
        (final_result (notification ''renamed'' ''a.go'' ''h1'' ''/w'') ''error''
           ''Unknown event type: renamed'')]\<rparr>"
proof -
  define u where "u = notification ''renamed'' ''a.go'' ''h1'' ''/w''"
  have h: "Event u \<noteq> ''initial_scan''" "Event u \<noteq> ''added''"
    "Event u \<noteq> ''modified''" "Event u \<noteq> ''deleted''"
    by (simp_all add: u_def notification_def)
  have h5: "GetUserByApiKey stub_env (ApiKey u) (store (stub_world [])) =
              (Inr \<lparr>User_ID = ''u1''\<rparr>, [])"
    by (simp add: u_def stub_defs)
  have h6: "WorkspacePath u \<noteq> ''''"
    by (simp add: u_def notification_def)
  have h7: "EnsureWorkspace stub_env (User_ID \<lparr>User_ID = ''u1''\<rparr>) (WorkspacePath u) '''' [] =
              (Inr \<lparr>Workspace_ID = ''ws1''\<rparr>, [])"
    by (simp add: stub_defs)
  from unknown_event_after_ensure [OF h h5 h6 h7, of "''s1''"] show ?thesis
    unfolding u_def [symmetric] by (simp add: u_def stub_defs)
qed

text \<open>Claim C3 says that a \<open>modified\<close> notification with a valid credential and a non-empty
  workspace root, for a path without a file record, fails with "Failed to find file for
  update: ...". The lookup is made only once the store has ensured the workspace: where it
  cannot, the notification fails with "Failed to ensure workspace: ..." and the path is
  never looked up.\<close>

theorem modified_counterexample:
  "fst (GetByPath stub_env_no_workspace ''u1'' ''ws1'' ''a.go'' []) = Inl ''not found''
   \<and> processFileUpdateAsync stub_env_no_workspace ''s1''
       (notification ''modified'' ''a.go'' ''h2'' ''/w'') (stub_world []) =
     \<lparr>store = [], handler = NewSocketHandler,
      trace = [Call_GetUserByApiKey ''key-1'', Call_EnsureWorkspace ''u1'' ''/w'' '''',
        Emit ''s1'' ''file:update:ack''
          (final_result (notification ''modified'' ''a.go'' ''h2'' ''/w'') ''error''
             ''Failed to ensure workspace: failed to ensure workspace: store unavailable'')]\<rparr>"
  by (simp add: reconcile_defs stub_defs stub_env_no_workspace_def)

text \<open>Whatever the collaborators answer, a \<open>modified\<close> notification never reaches a call
  of the store's create: the branch that creates is that of \<open>initial_scan\<close> and \<open>added\<close>.\<close>

lemma relates_if_guarded:
  assumes "c \<Longrightarrow> relates I A S" and "\<not> c \<Longrightarrow> relates I B S"
  shows "relates I (\<lambda>w. if c then A w else B w) S"
  using assms by (simp add: relates_def)

lemma relatesP_if_guarded:
  assumes "c \<Longrightarrow> relatesP I A S" and "\<not> c \<Longrightarrow> relatesP I B S"
  shows "relatesP I (\<lambda>w. if c then A w else B w) S"
  using assms by (simp add: relatesP_def)

lemma createless_external:
  assumes "\<not> is_create e"
  shows "relatesP (createless t0) (external e f) (createless t0)"
  using assms
  by (auto simp: relatesP_def createless_def external_def split: prod.splits)

lemma createless_return: "relatesP (createless t0) (Pair a) (createless t0)"
  by (simp add: relatesP_def)

lemma createless_sendFinalResult:
  "relates (createless t0) (sendFinalResult socket u st msg) (createless t0)"
  by (auto simp: relates_def createless_def sendFinalResult_eq log_event_def)

lemma createless_ensureWorkspace:
  "relatesP (createless t0) (ensureWorkspace env userID workspacePath filePath)
     (createless t0)"
  unfolding ensureWorkspace_def[abs_def] workspaceUsecase_EnsureWorkspace_def
  by (intro relates_rules createless_external createless_return) simp

lemma createless_processFileUpdateAsync:
  assumes "Event u = ''modified''"
  shows "relates (createless t0) (processFileUpdateAsync env socket u) (createless t0)"
  unfolding processFileUpdateAsync_def[abs_def] service_defs Let_def
  apply (intro relates_bind relatesP_bind relates_sum relatesP_sum relates_option
      relatesP_option relates_prod relates_if_guarded relatesP_if_guarded
      createless_external createless_return createless_sendFinalResult
      createless_ensureWorkspace)
                      apply (simp_all add: assms)
  done

lemma modified_makes_no_create_call:
  assumes "Event u = ''modified''"
  shows "filter is_create (new_events w (processFileUpdateAsync env socket u w)) = []"
proof -
  have "createless (trace w) w w"
    by (simp add: createless_def)
  with createless_processFileUpdateAsync [OF assms, of "trace w" env socket]
  have "createless (trace w) (processFileUpdateAsync env socket u w)
          (processFileUpdateAsync env socket u w)"
    by (simp add: relates_def)
  then show ?thesis
    unfolding createless_def new_events_def by fastforce
qed

text \<open>Claim C3, amended. A \<open>modified\<close> notification never calls the store's create,
  whatever the collaborators answer. When its credential resolves to a user, its workspace
  root is non-empty, the store ensures the workspace and the lookup by path returns an
  error, not-found or any other, it fails with "Failed to find file for update: "
  followed by the error, and the lookup is the last call made.\<close>

theorem modified_never_creates:
  assumes "Event u = ''modified''"
  shows "filter is_create (new_events w (processFileUpdateAsync env socket u w)) = []
       \<and> (GetUserByApiKey env (ApiKey u) (store w) = (Inr user, s1)
            \<and> WorkspacePath u \<noteq> ''''
            \<and> EnsureWorkspace env (User_ID user) (WorkspacePath u) '''' s1 = (Inr ws, s2)
            \<and> GetByPath env (User_ID user) (Workspace_ID ws) (FilePath u) s2 = (Inl err, s3)
          \<longrightarrow> processFileUpdateAsync env socket u w =
                w\<lparr>store := s3,
                  trace := trace w @
                    [Call_GetUserByApiKey (ApiKey u),
                     Call_EnsureWorkspace (User_ID user) (WorkspacePath u) '''',
                     Call_GetByPath (User_ID user) (Workspace_ID ws) (FilePath u),
                     Emit socket ''file:update:ack''
                       (final_result u ''error''
                          (''Failed to find file for update: '' @ Error env err))]\<rparr>)"
proof (intro conjI impI)
  show "filter is_create (new_events w (processFileUpdateAsync env socket u w)) = []"
    by (rule modified_makes_no_create_call [OF assms])
next
  assume "GetUserByApiKey env (ApiKey u) (store w) = (Inr user, s1)
            \<and> WorkspacePath u \<noteq> ''''
            \<and> EnsureWorkspace env (User_ID user) (WorkspacePath u) '''' s1 = (Inr ws, s2)
            \<and> GetByPath env (User_ID user) (Workspace_ID ws) (FilePath u) s2 = (Inl err, s3)"
  with assms show "processFileUpdateAsync env socket u w =
                w\<lparr>store := s3,
                  trace := trace w @
                    [Call_GetUserByApiKey (ApiKey u),
                     Call_EnsureWorkspace (User_ID user) (WorkspacePath u) '''',
                     Call_GetByPath (User_ID user) (Workspace_ID ws) (FilePath u),
                     Emit socket ''file:update:ack''
                       (final_result u ''error''
                          (''Failed to find file for update: '' @ Error env err))]\<rparr>"
    by (simp add: reconcile_defs)
qed

text \<open>In the small environment: a \<open>modified\<close> notification for a path the store does not
  know.\<close>

theorem modified_never_creates_witness:
  "processFileUpdateAsync stub_env ''s1'' (notification ''modified'' ''a.go'' ''h2'' ''/w'')
     (stub_world []) =
   \<lparr>store = [], handler = NewSocketHandler,
    trace = [Call_GetUserByApiKey ''key-1'', Call_EnsureWorkspace ''u1'' ''/w'' '''',
      Call_GetByPath ''u1'' ''ws1'' ''a.go'',
      Emit ''s1'' ''file:update:ack''
        (final_result (notification ''modified'' ''a.go'' ''h2'' ''/w'') ''error''
           ''Failed to find file for update: not found'')]\<rparr>
   \<and> filter is_create (new_events (stub_world [])
        (processFileUpdateAsync stub_env ''s1'' (notification ''modified'' ''a.go'' ''h2'' ''/w'')
           (stub_world []))) = []"
proof -
  define u where "u = notification ''modified'' ''a.go'' ''h2'' ''/w''"
  have h1: "Event u = ''modified''"
    by (simp add: u_def notification_def)
  have h2: "GetUserByApiKey stub_env (ApiKey u) (store (stub_world [])) =
              (Inr \<lparr>User_ID = ''u1''\<rparr>, [])
      \<and> WorkspacePath u \<noteq> ''''
      \<and> EnsureWorkspace stub_env (User_ID \<lparr>User_ID = ''u1''\<rparr>) (WorkspacePath u) '''' [] =
              (Inr \<lparr>Workspace_ID = ''ws1''\<rparr>, [])
      \<and> GetByPath stub_env (User_ID \<lparr>User_ID = ''u1''\<rparr>)
              (Workspace_ID \<lparr>Workspace_ID = ''ws1''\<rparr>) (FilePath u) [] = (Inl ''not found'', [])"
    by (simp add: u_def stub_defs)
  from modified_never_creates [OF h1, of "stub_world []" stub_env "''s1''"
      "\<lparr>User_ID = ''u1''\<rparr>" "[]" "\<lparr>Workspace_ID = ''ws1''\<rparr>" "[]" "''not found''" "[]"] h2
  have A: "filter is_create (new_events (stub_world [])
        (processFileUpdateAsync stub_env ''s1'' u (stub_world []))) = []"
    and B: "processFileUpdateAsync stub_env ''s1'' u (stub_world []) =
      (stub_world [])\<lparr>store := [],
        trace := trace (stub_world []) @
          [Call_GetUserByApiKey (ApiKey u),
           Call_EnsureWorkspace (User_ID \<lparr>User_ID = ''u1''\<rparr>) (WorkspacePath u) '''',
           Call_GetByPath (User_ID \<lparr>User_ID = ''u1''\<rparr>)
             (Workspace_ID \<lparr>Workspace_ID = ''ws1''\<rparr>) (FilePath u),
           Emit ''s1'' ''file:update:ack''
             (final_result u ''error''
                (''Failed to find file for update: '' @ Error stub_env ''not found''))]\<rparr>"
    by blast+
  have "Error stub_env ''not found'' = ''not found''"
    by (simp add: stub_env_def)
  with B have "processFileUpdateAsync stub_env ''s1'' u (stub_world []) =
      \<lparr>store = [], handler = NewSocketHandler,
       trace = [Call_GetUserByApiKey ''key-1'', Call_EnsureWorkspace ''u1'' ''/w'' '''',
         Call_GetByPath ''u1'' ''ws1'' ''a.go'',
         Emit ''s1'' ''file:update:ack''
           (final_result u ''error'' ''Failed to find file for update: not found'')]\<rparr>"
    by (simp add: u_def notification_def stub_world_def)
  with A show ?thesis
    unfolding u_def [symmetric] by simp
qed

text \<open>Claim C5. A notification with a credential that resolves to a user and an empty
  workspace root fails with a message that ends in "no workspace path provided"; the
  user lookup is the only call, no method of the workspace store is called.\<close>

theorem no_workspace_path_provided:
  assumes "GetUserByApiKey env (ApiKey u) (store w) = (Inr user, s1)"
    and "WorkspacePath u = ''''"
  shows "processFileUpdateAsync env socket u w =
           w\<lparr>store := s1,
             trace := trace w @
               [Call_GetUserByApiKey (ApiKey u),
                Emit socket ''file:update:ack''
                  (final_result u ''error''
                     (''Failed to ensure workspace: '' @ ''no workspace path provided''))]\<rparr>
         \<and> filter is_file_call (new_events w (processFileUpdateAsync env socket u w)) = []"
  using assms by (simp add: reconcile_defs)

theorem no_workspace_path_provided_witness:
  "processFileUpdateAsync stub_env ''s1'' (notification ''added'' ''a.go'' ''h1'' '''')
     (stub_world []) =
   \<lparr>store = [], handler = NewSocketHandler,
    trace = [Call_GetUserByApiKey ''key-1'',
      Emit ''s1'' ''file:update:ack''
        (final_result (notification ''added'' ''a.go'' ''h1'' '''') ''error''
           ''Failed to ensure workspace: no workspace path provided'')]\<rparr>"
proof -
  define u where "u = notification ''added'' ''a.go'' ''h1'' ''''"
  have h1: "GetUserByApiKey stub_env (ApiKey u) (store (stub_world [])) =
              (Inr \<lparr>User_ID = ''u1''\<rparr>, [])"
    by (simp add: u_def stub_defs)
  have h2: "WorkspacePath u = ''''"
    by (simp add: u_def notification_def)
  from no_workspace_path_provided [OF h1 h2, of "''s1''"] show ?thesis
    unfolding u_def [symmetric] by (simp add: u_def stub_defs)
qed

text \<open>Claim C7. Once the create of an \<open>initial_scan\<close> or \<open>added\<close> notification without
  an existing record, or the update of a \<open>modified\<close> notification, has succeeded, the
  final result is \<open>success\<close> with "File created successfully" or "File updated
  successfully" whatever the indexer (\<open>GetAndSave\<close>) returns: \<open>indexed\<close> is any answer of
  it, an error or none.\<close>

theorem indexer_failure_is_not_propagated:
  assumes "GetUserByApiKey env (ApiKey u) (store w) = (Inr user, s1)"
    and "WorkspacePath u \<noteq> ''''"
    and "EnsureWorkspace env (User_ID user) (WorkspacePath u) '''' s1 = (Inr ws, s2)"
    and "GetAndSave env (getAndSaveReq (User_ID user) (Workspace_ID ws) u) s4 = (indexed, s5)"
  shows "((Event u = ''initial_scan'' \<or> Event u = ''added'')
            \<and> GetByPath env (User_ID user) (Workspace_ID ws) (FilePath u) s2 = (Inl err, s3)
            \<and> IsNotFound env err
            \<and> Create env \<lparr>Create_Path = FilePath u, Create_Content = Content u,
                 Create_Hash = Hash u, Create_UserID = User_ID user,
                 Create_WorkspaceID = Workspace_ID ws\<rparr> s3 = (Inr created, s4)
          \<longrightarrow> store (processFileUpdateAsync env socket u w) = s5
            \<and> final_results socket (new_events w (processFileUpdateAsync env socket u w)) =
                [final_result u ''success'' ''File created successfully''])
       \<and> (Event u = ''modified''
            \<and> GetByPath env (User_ID user) (Workspace_ID ws) (FilePath u) s2 = (Inr found, s3)
            \<and> Update env \<lparr>Update_ID = WorkspaceFile_ID found, Update_Content = Some (Content u),
                 Update_Hash = Some (Hash u)\<rparr> s3 = (Inr updated, s4)
          \<longrightarrow> store (processFileUpdateAsync env socket u w) = s5
            \<and> final_results socket (new_events w (processFileUpdateAsync env socket u w)) =
                [final_result u ''success'' ''File updated successfully''])"
  using assms by (simp add: reconcile_defs)

text \<open>In the small environment the indexer always fails; an \<open>added\<close> notification on an
  empty store and a \<open>modified\<close> one on a stored file succeed all the same.\<close>

theorem indexer_failure_is_not_propagated_witness:
  "final_results ''s1'' (new_events (stub_world [])
     (processFileUpdateAsync stub_env ''s1'' (notification ''added'' ''a.go'' ''h1'' ''/w'')
        (stub_world []))) =
     [final_result (notification ''added'' ''a.go'' ''h1'' ''/w'') ''success''
        ''File created successfully'']
   \<and> final_results ''s1''
     (new_events (stub_world [(''a.go'', \<lparr>WorkspaceFile_ID = ''f1'', WorkspaceFile_Hash = ''h1''\<rparr>)])
     (processFileUpdateAsync stub_env ''s1'' (notification ''modified'' ''a.go'' ''h2'' ''/w'')
        (stub_world [(''a.go'', \<lparr>WorkspaceFile_ID = ''f1'', WorkspaceFile_Hash = ''h1''\<rparr>)]))) =
     [final_result (notification ''modified'' ''a.go'' ''h2'' ''/w'') ''success''
        ''File updated successfully'']
   \<and> fst (GetAndSave stub_env (getAndSaveReq ''u1'' ''ws1''
              (notification ''added'' ''a.go'' ''h1'' ''/w'')) [(''a.go'',
                \<lparr>WorkspaceFile_ID = ''id:a.go'', WorkspaceFile_Hash = ''h1''\<rparr>)])
       = Some ''indexer unavailable''"
proof -
  define ua where "ua = notification ''added'' ''a.go'' ''h1'' ''/w''"
  define um where "um = notification ''modified'' ''a.go'' ''h2'' ''/w''"
  define fa where "fa = \<lparr>WorkspaceFile_ID = ''id:a.go'', WorkspaceFile_Hash = ''h1''\<rparr>"
  define f1 where "f1 = \<lparr>WorkspaceFile_ID = ''f1'', WorkspaceFile_Hash = ''h1''\<rparr>"
  define f2 where "f2 = \<lparr>WorkspaceFile_ID = ''f1'', WorkspaceFile_Hash = ''h2''\<rparr>"
  define usr where "usr = \<lparr>User_ID = ''u1''\<rparr>"
  define wsp where "wsp = \<lparr>Workspace_ID = ''ws1''\<rparr>"
  have a1: "GetUserByApiKey stub_env (ApiKey ua) (store (stub_world [])) = (Inr usr, [])"
    by (simp add: ua_def usr_def stub_defs)
  have a2: "WorkspacePath ua \<noteq> ''''"
    by (simp add: ua_def notification_def)
  have a3: "EnsureWorkspace stub_env (User_ID usr) (WorkspacePath ua) '''' [] = (Inr wsp, [])"
    by (simp add: wsp_def stub_defs)
  have a4: "GetAndSave stub_env (getAndSaveReq (User_ID usr) (Workspace_ID wsp) ua)
              [(''a.go'', fa)] = (Some ''indexer unavailable'', [(''a.go'', fa)])"
    by (simp add: stub_defs)
  have a5: "(Event ua = ''initial_scan'' \<or> Event ua = ''added'')
      \<and> GetByPath stub_env (User_ID usr) (Workspace_ID wsp) (FilePath ua) [] =
          (Inl ''not found'', [])
      \<and> IsNotFound stub_env ''not found''
      \<and> Create stub_env \<lparr>Create_Path = FilePath ua, Create_Content = Content ua,
           Create_Hash = Hash ua, Create_UserID = User_ID usr,
           Create_WorkspaceID = Workspace_ID wsp\<rparr> [] = (Inr fa, [(''a.go'', fa)])"
    by (simp add: ua_def fa_def wsp_def usr_def stub_defs)
  have m1: "GetUserByApiKey stub_env (ApiKey um) (store (stub_world [(''a.go'', f1)])) =
              (Inr usr, [(''a.go'', f1)])"
    by (simp add: um_def usr_def stub_defs)
  have m2: "WorkspacePath um \<noteq> ''''"
    by (simp add: um_def notification_def)
  have m3: "EnsureWorkspace stub_env (User_ID usr) (WorkspacePath um) '''' [(''a.go'', f1)] =
              (Inr wsp, [(''a.go'', f1)])"
    by (simp add: wsp_def stub_defs)
  have m4: "GetAndSave stub_env (getAndSaveReq (User_ID usr) (Workspace_ID wsp) um)
              [(''a.go'', f2)] = (Some ''indexer unavailable'', [(''a.go'', f2)])"
    by (simp add: stub_defs)
  have m5: "Event um = ''modified''
      \<and> GetByPath stub_env (User_ID usr) (Workspace_ID wsp) (FilePath um) [(''a.go'', f1)] =
          (Inr f1, [(''a.go'', f1)])
      \<and> Update stub_env \<lparr>Update_ID = WorkspaceFile_ID f1, Update_Content = Some (Content um),
           Update_Hash = Some (Hash um)\<rparr> [(''a.go'', f1)] = (Inr f2, [(''a.go'', f2)])"
    by (simp add: um_def f1_def f2_def wsp_def usr_def stub_defs)
  from indexer_failure_is_not_propagated [OF a1 a2 a3 a4,
      where err = "''not found''" and ?s3.0 = "[]" and created = fa and socket = "''s1''"] a5
  have A: "final_results ''s1'' (new_events (stub_world [])
             (processFileUpdateAsync stub_env ''s1'' ua (stub_world []))) =
           [final_result ua ''success'' ''File created successfully'']"
    by blast
  from indexer_failure_is_not_propagated [OF m1 m2 m3 m4,
      where found = f1 and ?s3.0 = "[(''a.go'', f1)]" and updated = f2 and socket = "''s1''"] m5
  have M: "final_results ''s1'' (new_events (stub_world [(''a.go'', f1)])
             (processFileUpdateAsync stub_env ''s1'' um (stub_world [(''a.go'', f1)]))) =
           [final_result um ''success'' ''File updated successfully'']"
    by blast
  from A M a4 show ?thesis
    by (simp add: ua_def um_def f1_def fa_def usr_def wsp_def)
qed

text \<open>Claim C8 says that a notification with an empty file path is rejected and never
  reaches the file methods of the store. Reconciliation does not look at the path: an
  \<open>added\<close> notification with the empty path is looked up, created and indexed under that
  path, and succeeds.\<close>

theorem empty_path_counterexample:
  "processFileUpdateAsync stub_env ''s1'' (notification ''added'' '''' ''h1'' ''/w'')
     (stub_world []) =
   \<lparr>store = [('''', \<lparr>WorkspaceFile_ID = ''id:'', WorkspaceFile_Hash = ''h1''\<rparr>)],
    handler = NewSocketHandler,
    trace = [Call_GetUserByApiKey ''key-1'', Call_EnsureWorkspace ''u1'' ''/w'' '''',
      Call_GetByPath ''u1'' ''ws1'' '''',
      Call_Create \<lparr>Create_Path = '''', Create_Content = ''package a'', Create_Hash = ''h1'',
                   Create_UserID = ''u1'', Create_WorkspaceID = ''ws1''\<rparr>,
      Call_GetAndSave \<lparr>GetAndSave_UserID = ''u1'', GetAndSave_WorkspaceID = ''ws1'',
         GetAndSave_FileMetas = [\<lparr>FileMeta_FilePath = '''',
            FileMeta_Language = CodeLanguageTypeNone, FileMeta_Content = ''package a''\<rparr>]\<rparr>,
      Emit ''s1'' ''file:update:ack''
        (final_result (notification ''added'' '''' ''h1'' ''/w'') ''success''
           ''File created successfully'')]\<rparr>"
  by (simp add: reconcile_defs stub_defs getAndSaveReq_def getFileExtension_def
      getFileLanguage_def)

text \<open>For each of the four event kinds the lookup by path is the call that follows
  \<open>EnsureWorkspace\<close>, with the path as the notification gives it.\<close>

lemma lookup_follows_ensure_modified:
  assumes "Event u = ''modified''"
    and "GetUserByApiKey env (ApiKey u) (store w) = (Inr user, s1)"
    and "WorkspacePath u \<noteq> ''''"
    and "EnsureWorkspace env (User_ID user) (WorkspacePath u) '''' s1 = (Inr ws, s2)"
  shows "take 3 (new_events w (processFileUpdateAsync env socket u w)) =
           [Call_GetUserByApiKey (ApiKey u),
            Call_EnsureWorkspace (User_ID user) (WorkspacePath u) '''',
            Call_GetByPath (User_ID user) (Workspace_ID ws) (FilePath u)]"
  using assms
  by (simp add: reconcile_defs split: prod.splits sum.splits option.splits)

lemma lookup_follows_ensure_added:
  assumes "Event u = ''initial_scan'' \<or> Event u = ''added''"
    and "GetUserByApiKey env (ApiKey u) (store w) = (Inr user, s1)"
    and "WorkspacePath u \<noteq> ''''"
    and "EnsureWorkspace env (User_ID user) (WorkspacePath u) '''' s1 = (Inr ws, s2)"
  shows "take 3 (new_events w (processFileUpdateAsync env socket u w)) =
           [Call_GetUserByApiKey (ApiKey u),
            Call_EnsureWorkspace (User_ID user) (WorkspacePath u) '''',
            Call_GetByPath (User_ID user) (Workspace_ID ws) (FilePath u)]"
  using assms
  by (simp add: reconcile_defs split: prod.splits sum.splits option.splits)

lemma lookup_follows_ensure_deleted:
  assumes "Event u = ''deleted''"
    and "GetUserByApiKey env (ApiKey u) (store w) = (Inr user, s1)"
    and "WorkspacePath u \<noteq> ''''"
    and "EnsureWorkspace env (User_ID user) (WorkspacePath u) '''' s1 = (Inr ws, s2)"
  shows "take 3 (new_events w (processFileUpdateAsync env socket u w)) =
           [Call_GetUserByApiKey (ApiKey u),
            Call_EnsureWorkspace (User_ID user) (WorkspacePath u) '''',
            Call_GetByPath (User_ID user) (Workspace_ID ws) (FilePath u)]"
  using assms
  by (simp add: reconcile_defs split: prod.splits sum.splits option.splits)

text \<open>Claim C8, amended. Reconciliation does not validate the file path. For each of the
  event kinds \<open>initial_scan\<close>, \<open>added\<close>, \<open>modified\<close> and \<open>deleted\<close>, a notification with an
  empty path (user resolved, non-empty workspace root, workspace ensured) is looked up in
  the store under the empty path, and is then handled by the rules of the dispatch applied
  to the empty path; the store's answers decide the outcome, the path being empty does
  not:
  \<^item> \<open>initial_scan\<close>, \<open>added\<close>: a lookup error other than not-found fails with "Error
    checking for existing file: ..."; on not-found the file is created under the empty
    path, which fails with "Failed to create file: ..." or is followed by the indexer call
    and "File created successfully"; a file found with the same hash gives "File is
    already up-to-date"; one found with another hash is updated, with "Failed to update
    existing file: ..." or "File updated successfully";
  \<^item> \<open>modified\<close>: a lookup error fails with "Failed to find file for update: ..."; a file
    found is updated, with "Failed to update file: ..." or the indexer call and "File
    updated successfully";
  \<^item> \<open>deleted\<close>: a lookup error fails with "Failed to find file for deletion: ..."; a
    file found is deleted, with "Failed to delete file: ..." or "File deleted
    successfully".\<close>

theorem empty_path_reaches_the_store:
  assumes "FilePath u = ''''"
    and "GetUserByApiKey env (ApiKey u) (store w) = (Inr user, s1)"
    and "WorkspacePath u \<noteq> ''''"
    and "EnsureWorkspace env (User_ID user) (WorkspacePath u) '''' s1 = (Inr ws, s2)"
  shows
    "let userID = User_ID user; workspaceID = Workspace_ID ws;
         lookup = GetByPath env userID workspaceID '''' s2;
         events = new_events w (processFileUpdateAsync env socket u w);
         pre = [Call_GetUserByApiKey (ApiKey u),
                Call_EnsureWorkspace userID (WorkspacePath u) '''',
                Call_GetByPath userID workspaceID ''''];
         final = (\<lambda>status message.
                    Emit socket ''file:update:ack'' (final_result u status message));
         createReq = \<lparr>Create_Path = '''', Create_Content = Content u, Create_Hash = Hash u,
                       Create_UserID = userID, Create_WorkspaceID = workspaceID\<rparr>;
         updateReq = \<lparr>Update_ID = WorkspaceFile_ID found, Update_Content = Some (Content u),
                       Update_Hash = Some (Hash u)\<rparr>;
         indexReq = \<lparr>GetAndSave_UserID = userID, GetAndSave_WorkspaceID = workspaceID,
                      GetAndSave_FileMetas = [\<lparr>FileMeta_FilePath = '''',
                         FileMeta_Language = CodeLanguageTypeNone,
                         FileMeta_Content = Content u\<rparr>]\<rparr>
     in (Event u = ''initial_scan'' \<or> Event u = ''added'' \<or> Event u = ''modified''
            \<or> Event u = ''deleted''
          \<longrightarrow> take 3 events = pre)
      \<and> ((Event u = ''initial_scan'' \<or> Event u = ''added'')
            \<and> lookup = (Inl err, s3) \<and> \<not> IsNotFound env err
          \<longrightarrow> events = pre @
                [final ''error'' (''Error checking for existing file: '' @ Error env err)])
      \<and> ((Event u = ''initial_scan'' \<or> Event u = ''added'')
            \<and> lookup = (Inl err, s3) \<and> IsNotFound env err
            \<and> Create env createReq s3 = (Inl err', s4)
          \<longrightarrow> events = pre @
                [Call_Create createReq,
                 final ''error'' (''Failed to create file: '' @ Error env err')])
      \<and> ((Event u = ''initial_scan'' \<or> Event u = ''added'')
            \<and> lookup = (Inl err, s3) \<and> IsNotFound env err
            \<and> Create env createReq s3 = (Inr created, s4)
          \<longrightarrow> events = pre @
                [Call_Create createReq, Call_GetAndSave indexReq,
                 final ''success'' ''File created successfully''])
      \<and> ((Event u = ''initial_scan'' \<or> Event u = ''added'')
            \<and> lookup = (Inr found, s3) \<and> WorkspaceFile_Hash found = Hash u
          \<longrightarrow> events = pre @ [final ''success'' ''File is already up-to-date''])
      \<and> ((Event u = ''initial_scan'' \<or> Event u = ''added'')
            \<and> lookup = (Inr found, s3) \<and> WorkspaceFile_Hash found \<noteq> Hash u
            \<and> Update env updateReq s3 = (Inl err', s4)
          \<longrightarrow> events = pre @
                [Call_Update updateReq,
                 final ''error'' (''Failed to update existing file: '' @ Error env err')])
      \<and> ((Event u = ''initial_scan'' \<or> Event u = ''added'')
            \<and> lookup = (Inr found, s3) \<and> WorkspaceFile_Hash found \<noteq> Hash u
            \<and> Update env updateReq s3 = (Inr updated, s4)
          \<longrightarrow> events = pre @
                [Call_Update updateReq, final ''success'' ''File updated successfully''])
      \<and> (Event u = ''modified'' \<and> lookup = (Inl err, s3)
          \<longrightarrow> events = pre @
                [final ''error'' (''Failed to find file for update: '' @ Error env err)])
      \<and> (Event u = ''modified'' \<and> lookup = (Inr found, s3)
            \<and> Update env updateReq s3 = (Inl err', s4)
          \<longrightarrow> events = pre @
                [Call_Update updateReq,
                 final ''error'' (''Failed to update file: '' @ Error env err')])
      \<and> (Event u = ''modified'' \<and> lookup = (Inr found, s3)
            \<and> Update env updateReq s3 = (Inr updated, s4)
          \<longrightarrow> events = pre @
                [Call_Update updateReq, Call_GetAndSave indexReq,
                 final ''success'' ''File updated successfully''])
      \<and> (Event u = ''deleted'' \<and> lookup = (Inl err, s3)
          \<longrightarrow> events = pre @
                [final ''error'' (''Failed to find file for deletion: '' @ Error env err)])
      \<and> (Event u = ''deleted'' \<and> lookup = (Inr found, s3)
            \<and> Delete env (WorkspaceFile_ID found) s3 = (Some err', s4)
          \<longrightarrow> events = pre @
                [Call_Delete (WorkspaceFile_ID found),
                 final ''error'' (''Failed to delete file: '' @ Error env err')])
      \<and> (Event u = ''deleted'' \<and> lookup = (Inr found, s3)
            \<and> Delete env (WorkspaceFile_ID found) s3 = (None, s4)
          \<longrightarrow> events = pre @
                [Call_Delete (WorkspaceFile_ID found),
                 final ''success'' ''File deleted successfully''])"
proof -
  have lookup: "take 3 (new_events w (processFileUpdateAsync env socket u w)) =
           [Call_GetUserByApiKey (ApiKey u),
            Call_EnsureWorkspace (User_ID user) (WorkspacePath u) '''',
            Call_GetByPath (User_ID user) (Workspace_ID ws) '''']"
    if "Event u = ''initial_scan'' \<or> Event u = ''added'' \<or> Event u = ''modified''
           \<or> Event u = ''deleted''"
  proof -
    from that consider "Event u = ''initial_scan'' \<or> Event u = ''added''"
      | "Event u = ''modified''" | "Event u = ''deleted''"
      by blast
    then have "take 3 (new_events w (processFileUpdateAsync env socket u w)) =
           [Call_GetUserByApiKey (ApiKey u),
            Call_EnsureWorkspace (User_ID user) (WorkspacePath u) '''',
            Call_GetByPath (User_ID user) (Workspace_ID ws) (FilePath u)]"
    proof cases
      case 1
      then show ?thesis by (rule lookup_follows_ensure_added [OF _ assms(2-4)])
    next
      case 2
      then show ?thesis by (rule lookup_follows_ensure_modified [OF _ assms(2-4)])
    next
      case 3
      then show ?thesis by (rule lookup_follows_ensure_deleted [OF _ assms(2-4)])
    qed
    with assms(1) show ?thesis by simp
  qed
  have ext: "getAndSaveReq userID workspaceID u =
      \<lparr>GetAndSave_UserID = userID, GetAndSave_WorkspaceID = workspaceID,
       GetAndSave_FileMetas = [\<lparr>FileMeta_FilePath = '''',
          FileMeta_Language = CodeLanguageTypeNone, FileMeta_Content = Content u\<rparr>]\<rparr>"
    for userID workspaceID
    using assms(1)
    by (simp add: getAndSaveReq_def getFileExtension_def getFileLanguage_def)
  show ?thesis
    unfolding Let_def
    apply (insert assms)
    apply (intro conjI impI)
                apply (erule lookup)
               apply (simp_all add: processFileUpdateAsync_def service_defs external_def
        ensureWorkspace_def sendFinalResult_eq log_event_def new_events_def go_Error_def ext
        Let_def split: prod.splits)
    done
qed

text \<open>In the small environment: a file stored under the empty path, and a \<open>deleted\<close>
  notification for the empty path. The file is looked up and deleted.\<close>

theorem empty_path_reaches_the_store_witness:
  "new_events (stub_world [('''', \<lparr>WorkspaceFile_ID = ''f0'', WorkspaceFile_Hash = ''h0''\<rparr>)])
     (processFileUpdateAsync stub_env ''s1'' (notification ''deleted'' '''' ''h1'' ''/w'')
        (stub_world [('''', \<lparr>WorkspaceFile_ID = ''f0'', WorkspaceFile_Hash = ''h0''\<rparr>)])) =
     [Call_GetUserByApiKey ''key-1'', Call_EnsureWorkspace ''u1'' ''/w'' '''',
      Call_GetByPath ''u1'' ''ws1'' '''', Call_Delete ''f0'',
      Emit ''s1'' ''file:update:ack''
        (final_result (notification ''deleted'' '''' ''h1'' ''/w'') ''success''
           ''File deleted successfully'')]"
proof -
  define u where "u = notification ''deleted'' '''' ''h1'' ''/w''"
  define f0 where "f0 = \<lparr>WorkspaceFile_ID = ''f0'', WorkspaceFile_Hash = ''h0''\<rparr>"
  define usr where "usr = \<lparr>User_ID = ''u1''\<rparr>"
  define wsp where "wsp = \<lparr>Workspace_ID = ''ws1''\<rparr>"
  have h1: "FilePath u = ''''"
    by (simp add: u_def notification_def)
  have h2: "GetUserByApiKey stub_env (ApiKey u) (store (stub_world [('''', f0)])) =
              (Inr usr, [('''', f0)])"
    by (simp add: u_def usr_def stub_defs)
  have h3: "WorkspacePath u \<noteq> ''''"
    by (simp add: u_def notification_def)
  have h4: "EnsureWorkspace stub_env (User_ID usr) (WorkspacePath u) '''' [('''', f0)] =
              (Inr wsp, [('''', f0)])"
    by (simp add: wsp_def stub_defs)
  have row: "Event u = ''deleted''
      \<and> GetByPath stub_env (User_ID usr) (Workspace_ID wsp) '''' [('''', f0)] =
          (Inr f0, [('''', f0)])
      \<and> Delete stub_env (WorkspaceFile_ID f0) [('''', f0)] = (None, [])"
    by (simp add: u_def f0_def stub_defs)
  from empty_path_reaches_the_store [OF h1 h2 h3 h4,
      where found = f0 and ?s3.0 = "[('''', f0)]" and ?s4.0 = "[]" and socket = "''s1''"] row
  have "new_events (stub_world [('''', f0)])
          (processFileUpdateAsync stub_env ''s1'' u (stub_world [('''', f0)])) =
        [Call_GetUserByApiKey (ApiKey u),
         Call_EnsureWorkspace (User_ID usr) (WorkspacePath u) '''',
         Call_GetByPath (User_ID usr) (Workspace_ID wsp) ''''] @
        [Call_Delete (WorkspaceFile_ID f0),
         Emit ''s1'' ''file:update:ack'' (final_result u ''success'' ''File deleted successfully'')]"
    unfolding Let_def by simp
  then show ?thesis
    unfolding u_def [symmetric] f0_def [symmetric]
    by (simp add: u_def f0_def usr_def wsp_def notification_def)
qed

subsection \<open>The file-change channel\<close>

lemma new_events_log_event: "new_events w (log_event e w) = [e]"
  by (simp add: new_events_def log_event_def)

lemma new_events_log_event2: "new_events w (log_event e' (log_event e w)) = [e, e']"
  by (simp add: new_events_def log_event_def)

text \<open>On a structured map the handler always starts a reconciliation. The notification
  it hands over is built from the map alone and its \<open>PreviousHash\<close> is the zero value.\<close>

lemma handleFileUpdateFromObject_map:
  assumes "Data data = IMap m # rest"
  shows "\<exists>u. PreviousHash u = '''' \<and>
           (\<forall>w. handleFileUpdateFromObject env socket data w =
                  (IAckResponse \<lparr>AckResponse_ID = ID u, Status = ''received'',
                      Message = ''File update received, processing...''\<rparr>,
                   log_event (Go socket u) w))"
  unfolding handleFileUpdateFromObject_def Let_def assms list.case iface.case
  apply (rule exI)
  apply (rule conjI)
   prefer 2
   apply (rule allI)
   apply (rule refl)
  apply (simp add: zero_FileUpdateData_def split: option.splits)
  done

text \<open>Claim C10. Whatever the map holds, a \<open>previousHash\<close> key included, the structured-map
  path starts exactly one reconciliation and the notification it decoded has an empty
  \<open>PreviousHash\<close>.\<close>

theorem map_path_leaves_previousHash_empty:
  assumes "Data data = IMap m # rest"
  shows "map (\<lambda>(s, u). PreviousHash u)
           (started (new_events w (snd (handleFileUpdateFromObject env socket data w)))) = ['''']"
proof -
  from handleFileUpdateFromObject_map [OF assms, of env socket]
  obtain u where "PreviousHash u = ''''"
    and "handleFileUpdateFromObject env socket data w =
           (IAckResponse \<lparr>AckResponse_ID = ID u, Status = ''received'',
               Message = ''File update received, processing...''\<rparr>,
            log_event (Go socket u) w)"
    by blast
  then show ?thesis
    by (simp add: new_events_log_event)
qed

text \<open>A map that carries \<open>previousHash\<close>: the key is not read, the other fields are.\<close>

theorem map_path_leaves_previousHash_empty_witness:
  "started (new_events (stub_world [])
     (snd (handleFileUpdateFromObject stub_env ''s1''
        \<lparr>Data = [IMap [''id'' \<mapsto> IString ''n7'', ''hash'' \<mapsto> IString ''h2'',
                        ''previousHash'' \<mapsto> IString ''h1'', ''event'' \<mapsto> IString ''modified'']],
         Ack = True\<rparr> (stub_world [])))) =
     [(''s1'', \<lparr>ID = ''n7'', FilePath = '''', Hash = ''h2'', Event = ''modified'', Content = '''',
              PreviousHash = '''', Timestamp = 0, ApiKey = '''', WorkspacePath = ''''\<rparr>)]"
proof -
  define data where "data = \<lparr>Data = [IMap [''id'' \<mapsto> IString ''n7'', ''hash'' \<mapsto> IString ''h2'',
      ''previousHash'' \<mapsto> IString ''h1'', ''event'' \<mapsto> IString ''modified'']], Ack = True\<rparr>"
  have h: "Data data = IMap [''id'' \<mapsto> IString ''n7'', ''hash'' \<mapsto> IString ''h2'',
      ''previousHash'' \<mapsto> IString ''h1'', ''event'' \<mapsto> IString ''modified''] # []"
    by (simp add: data_def)
  have "started (new_events (stub_world [])
          (snd (handleFileUpdateFromObject stub_env ''s1'' data (stub_world [])))) =
        [(''s1'', \<lparr>ID = ''n7'', FilePath = '''', Hash = ''h2'', Event = ''modified'',
            Content = '''', PreviousHash = '''', Timestamp = 0, ApiKey = '''',
            WorkspacePath = ''''\<rparr>)]"
    using map_path_leaves_previousHash_empty [OF h, of "stub_world []" stub_env "''s1''"]
    by (simp add: handleFileUpdateFromObject_def data_def zero_FileUpdateData_def Let_def
        new_events_log_event)
  then show ?thesis
    by (simp add: data_def)
qed

text \<open>Claim C6. A string payload that \<open>json.Unmarshal\<close> rejects is answered with the error
  acknowledgement "Invalid data format" (through the acknowledgement callback, when the
  client gave one), and nothing else happens: the world is otherwise unchanged, so no
  reconciliation is started, no collaborator called and no final result sent.\<close>

theorem malformed_string_payload:
  assumes "Unmarshal_FileUpdateData env s = Inl err"
    and "Data data = IString s # rest"
  shows "handleFileUpdate env socket s w =
           (IMap [''status'' \<mapsto> IString ''error'',
                  ''message'' \<mapsto> IString ''Invalid data format''], w)
       \<and> registerFileUpdateHandler env socket data w =
           (if Ack data
            then log_event (AckCall (IMap [''status'' \<mapsto> IString ''error'',
                                           ''message'' \<mapsto> IString ''Invalid data format''])) w
            else w)"
  using assms
  by (simp add: handleFileUpdate_def registerFileUpdateHandler_def processFileUpdateData_def
      sendACKWithLock_def)

theorem malformed_string_payload_witness:
  "new_events (stub_world [])
     (registerFileUpdateHandler stub_env ''s1'' \<lparr>Data = [IString ''not-json{''], Ack = True\<rparr>
        (stub_world [])) =
     [AckCall (IMap [''status'' \<mapsto> IString ''error'',
                     ''message'' \<mapsto> IString ''Invalid data format''])]"
proof -
  have h1: "Unmarshal_FileUpdateData stub_env ''not-json{'' = Inl ''invalid character''"
    by (simp add: stub_env_def)
  have h2: "Data \<lparr>Data = [IString ''not-json{''], Ack = True\<rparr> = IString ''not-json{'' # []"
    by simp
  from malformed_string_payload [OF h1 h2, of "''s1''" "stub_world []"] show ?thesis
    by (simp add: new_events_log_event)
qed

text \<open>The chain of conditional assignments in \<open>handleFileUpdateFromObject\<close> builds the
  notification the map stands for.\<close>

lemma assign_ID:
  "(case x of None \<Rightarrow> r | Some v \<Rightarrow> r\<lparr>ID := v\<rparr>) =
     r\<lparr>ID := (case x of None \<Rightarrow> ID r | Some v \<Rightarrow> v)\<rparr>"
  by (cases x) simp_all

lemma assign_FilePath:
  "(case x of None \<Rightarrow> r | Some v \<Rightarrow> r\<lparr>FilePath := v\<rparr>) =
     r\<lparr>FilePath := (case x of None \<Rightarrow> FilePath r | Some v \<Rightarrow> v)\<rparr>"
  by (cases x) simp_all

lemma assign_Event:
  "(case x of None \<Rightarrow> r | Some v \<Rightarrow> r\<lparr>Event := v\<rparr>) =
     r\<lparr>Event := (case x of None \<Rightarrow> Event r | Some v \<Rightarrow> v)\<rparr>"
  by (cases x) simp_all

lemma assign_Hash:
  "(case x of None \<Rightarrow> r | Some v \<Rightarrow> r\<lparr>Hash := v\<rparr>) =
     r\<lparr>Hash := (case x of None \<Rightarrow> Hash r | Some v \<Rightarrow> v)\<rparr>"
  by (cases x) simp_all

lemma assign_Content:
  "(case x of None \<Rightarrow> r | Some v \<Rightarrow> r\<lparr>Content := v\<rparr>) =
     r\<lparr>Content := (case x of None \<Rightarrow> Content r | Some v \<Rightarrow> v)\<rparr>"
  by (cases x) simp_all

lemma assign_Timestamp:
  "(case x of None \<Rightarrow> r | Some v \<Rightarrow> r\<lparr>Timestamp := f v\<rparr>) =
     r\<lparr>Timestamp := (case x of None \<Rightarrow> Timestamp r | Some v \<Rightarrow> f v)\<rparr>"
  by (cases x) simp_all

lemma assign_ApiKey:
  "(case x of None \<Rightarrow> r | Some v \<Rightarrow> r\<lparr>ApiKey := v\<rparr>) =
     r\<lparr>ApiKey := (case x of None \<Rightarrow> ApiKey r | Some v \<Rightarrow> v)\<rparr>"
  by (cases x) simp_all

lemma assign_WorkspacePath:
  "(case x of None \<Rightarrow> r | Some v \<Rightarrow> r\<lparr>WorkspacePath := v\<rparr>) =
     r\<lparr>WorkspacePath := (case x of None \<Rightarrow> WorkspacePath r | Some v \<Rightarrow> v)\<rparr>"
  by (cases x) simp_all

lemma handleFileUpdateFromObject_decoded:
  assumes "Data data = IMap m # rest"
  shows "handleFileUpdateFromObject env socket data w =
           (IAckResponse \<lparr>AckResponse_ID = ID (decoded_map env m), Status = ''received'',
               Message = ''File update received, processing...''\<rparr>,
            log_event (Go socket (decoded_map env m)) w)"
  unfolding handleFileUpdateFromObject_def Let_def assms list.case iface.case
    assign_ID assign_FilePath assign_Event assign_Hash assign_Content assign_Timestamp
    assign_ApiKey assign_WorkspacePath
  by (simp add: zero_FileUpdateData_def decoded_map_def cong: option.case_cong)

text \<open>Claim C4 says that every well-formed JSON string sent with an acknowledgement
  callback is answered \<open>received\<close> and reconciled. The handler answers \<open>received\<close> only
  where \<open>json.Unmarshal\<close> returns no error, and it returns one for well-formed JSON that
  does not fit the record: \<open>{"id":5}\<close> is answered with the error "Invalid data format",
  and no reconciliation is started.\<close>

theorem two_phase_acknowledgement_counterexample:
  "json_object_id_5 = [CHR ''{'', CHR 0x22, CHR ''i'', CHR ''d'', CHR 0x22, CHR '':'', CHR ''5'', CHR ''}'']
   \<and> new_events (stub_world [])
       (registerFileUpdateHandler stub_env_json ''s1''
          \<lparr>Data = [IString json_object_id_5], Ack = True\<rparr> (stub_world [])) =
     [AckCall (IMap [''status'' \<mapsto> IString ''error'',
                     ''message'' \<mapsto> IString ''Invalid data format''])]"
  by (simp add: registerFileUpdateHandler_def processFileUpdateData_def handleFileUpdate_def
      sendACKWithLock_def new_events_log_event stub_env_json_def stub_env_def
      json_object_id_5_def json_object_id_n1_def)

text \<open>What the handler of \<open>file:update\<close> does with a payload that decodes.\<close>

lemma registerFileUpdateHandler_decodes:
  assumes "decodes env data u"
  shows "registerFileUpdateHandler env socket data w =
           sendACKWithLock data
             (IAckResponse \<lparr>AckResponse_ID = ID u, Status = ''received'',
                 Message = ''File update received, processing...''\<rparr>)
             (log_event (Go socket u) w)"
proof (cases "Data data")
  case Nil
  with assms show ?thesis
    by (simp add: decodes_def)
next
  case (Cons x rest)
  show ?thesis
  proof (cases "\<exists>m. x = IMap m")
    case True
    then obtain m where m: "Data data = IMap m # rest"
      using Cons by blast
    with assms have "u = decoded_map env m"
      by (simp add: decodes_def)
    with m show ?thesis
      by (simp add: registerFileUpdateHandler_def processFileUpdateData_def
          handleFileUpdateFromObject_decoded [OF m])
  next
    case False
    with assms Cons obtain v where "Data data = IString v # rest"
      and "Unmarshal_FileUpdateData env v = Inr u"
      by (cases x) (simp_all add: decodes_def)
    then show ?thesis
      by (simp add: registerFileUpdateHandler_def processFileUpdateData_def
          handleFileUpdate_def)
  qed
qed

text \<open>Claim C4, amended. A file-change payload that decodes into a notification \<open>u\<close> (a
  structured map, which stands for \<open>u\<close> field by field, or a string that
  \<open>json.Unmarshal\<close> decodes into \<open>u\<close> without error), sent with an acknowledgement
  callback, makes the handler start one reconciliation, that of \<open>u\<close>, and reply once,
  with the id of \<open>u\<close> and status \<open>received\<close>; and the reconciliation of \<open>u\<close>, from any world
  and whatever the collaborators answer, sends exactly one final result on the socket,
  which carries the id and the path of \<open>u\<close>. (The reply follows the \<open>go\<close> statement in the
  handler; in which order the reply and the final result reach the client is up to the
  scheduler.)\<close>

theorem two_phase_acknowledgement:
  assumes "decodes env data u" and "Ack data"
  shows "new_events w (registerFileUpdateHandler env socket data w) =
           [Go socket u,
            AckCall (IAckResponse \<lparr>AckResponse_ID = ID u, Status = ''received'',
                       Message = ''File update received, processing...''\<rparr>)]
       \<and> (\<forall>w'. \<exists>status message.
             final_results socket (new_events w' (processFileUpdateAsync env socket u w')) =
               [IMap [''id'' \<mapsto> IString (ID u), ''status'' \<mapsto> IString status,
                      ''message'' \<mapsto> IString message,
                      ''file'' \<mapsto> IString (FilePath u)]])"
proof
  from assms(2)
  show "new_events w (registerFileUpdateHandler env socket data w) =
          [Go socket u,
           AckCall (IAckResponse \<lparr>AckResponse_ID = ID u, Status = ''received'',
                      Message = ''File update received, processing...''\<rparr>)]"
    by (simp add: registerFileUpdateHandler_decodes [OF assms(1)] sendACKWithLock_def
        new_events_log_event2)
  have "\<exists>status message.
      final_results socket (new_events w' (processFileUpdateAsync env socket u w')) =
        [IMap [''id'' \<mapsto> IString (ID u), ''status'' \<mapsto> IString status,
               ''message'' \<mapsto> IString message, ''file'' \<mapsto> IString (FilePath u)]]" for w'
    using exactly_one_final_result [of socket w' env u] by (simp add: final_result_def)
  then show "\<forall>w'. \<exists>status message.
      final_results socket (new_events w' (processFileUpdateAsync env socket u w')) =
        [IMap [''id'' \<mapsto> IString (ID u), ''status'' \<mapsto> IString status,
               ''message'' \<mapsto> IString message, ''file'' \<mapsto> IString (FilePath u)]]"
    by blast
qed

text \<open>In the small environment with the JSON decoder: the string \<open>{"id":"n1"}\<close> and a
  map with id \<open>n7\<close> and path \<open>a.go\<close>. Each is answered \<open>received\<close> with its id and starts
  the reconciliation of the notification it decodes into; neither carries an API key, so
  the one final result of the map's reconciliation reports the unknown key.\<close>

theorem two_phase_acknowledgement_witness:
  "new_events (stub_world [])
     (registerFileUpdateHandler stub_env_json ''s1''
        \<lparr>Data = [IString json_object_id_n1], Ack = True\<rparr> (stub_world [])) =
     [Go ''s1'' (zero_FileUpdateData\<lparr>ID := ''n1''\<rparr>),
      AckCall (IAckResponse \<lparr>AckResponse_ID = ''n1'', Status = ''received'',
                 Message = ''File update received, processing...''\<rparr>)]
   \<and> new_events (stub_world [])
     (registerFileUpdateHandler stub_env_json ''s1''
        \<lparr>Data = [IMap [''id'' \<mapsto> IString ''n7'', ''filePath'' \<mapsto> IString ''a.go'']],
         Ack = True\<rparr> (stub_world [])) =
     [Go ''s1'' (zero_FileUpdateData\<lparr>ID := ''n7'', FilePath := ''a.go''\<rparr>),
      AckCall (IAckResponse \<lparr>AckResponse_ID = ''n7'', Status = ''received'',
                 Message = ''File update received, processing...''\<rparr>)]
   \<and> final_results ''s1'' (new_events (stub_world [])
        (processFileUpdateAsync stub_env_json ''s1''
           (zero_FileUpdateData\<lparr>ID := ''n7'', FilePath := ''a.go''\<rparr>) (stub_world []))) =
     [IMap [''id'' \<mapsto> IString ''n7'', ''status'' \<mapsto> IString ''error'',
            ''message'' \<mapsto> IString ''Invalid API key: unknown api key'',
            ''file'' \<mapsto> IString ''a.go'']]"
proof -
  define ds where "ds = \<lparr>Data = [IString json_object_id_n1], Ack = True\<rparr>"
  define dm where "dm = \<lparr>Data = [IMap [''id'' \<mapsto> IString ''n7'',
      ''filePath'' \<mapsto> IString ''a.go'']], Ack = True\<rparr>"
  define us where "us = zero_FileUpdateData\<lparr>ID := ''n1''\<rparr>"
  define um where "um = zero_FileUpdateData\<lparr>ID := ''n7'', FilePath := ''a.go''\<rparr>"
  have s1: "decodes stub_env_json ds us"
    by (simp add: decodes_def ds_def us_def stub_env_json_def json_object_id_n1_def)
  have m1: "decodes stub_env_json dm um"
    by (simp add: decodes_def dm_def um_def decoded_map_def zero_FileUpdateData_def)
  have s2: "Ack ds" and m2: "Ack dm"
    by (simp_all add: ds_def dm_def)
  have fin: "final_results ''s1'' (new_events (stub_world [])
        (processFileUpdateAsync stub_env_json ''s1'' um (stub_world []))) =
     [IMap [''id'' \<mapsto> IString ''n7'', ''status'' \<mapsto> IString ''error'',
            ''message'' \<mapsto> IString ''Invalid API key: unknown api key'',
            ''file'' \<mapsto> IString ''a.go'']]"
    by (simp add: um_def zero_FileUpdateData_def reconcile_defs stub_defs stub_env_json_def
        final_result_def)
  from two_phase_acknowledgement [OF s1 s2, of "stub_world []" "''s1''"]
  have S: "new_events (stub_world []) (registerFileUpdateHandler stub_env_json ''s1'' ds
             (stub_world [])) =
           [Go ''s1'' us, AckCall (IAckResponse \<lparr>AckResponse_ID = ID us, Status = ''received'',
              Message = ''File update received, processing...''\<rparr>)]"
    by (rule conjunct1)
  from two_phase_acknowledgement [OF m1 m2, of "stub_world []" "''s1''"]
  have M: "new_events (stub_world []) (registerFileUpdateHandler stub_env_json ''s1'' dm
             (stub_world [])) =
           [Go ''s1'' um, AckCall (IAckResponse \<lparr>AckResponse_ID = ID um, Status = ''received'',
              Message = ''File update received, processing...''\<rparr>)]"
    by (rule conjunct1)
  have "ID us = ''n1''" and "ID um = ''n7''"
    by (simp_all add: us_def um_def)
  with S M fin show ?thesis
    unfolding ds_def [symmetric] dm_def [symmetric] us_def [symmetric] um_def [symmetric]
    by simp
qed

subsection \<open>The handler's own fields are carried along by every action\<close>

lemma handler_log_event:
  "log_event e (w\<lparr>handler := h\<rparr>) = (log_event e w)\<lparr>handler := h\<rparr>"
  by (simp add: log_event_def)

lemma handler_sendErrorACK:
  "sendErrorACK data message (w\<lparr>handler := h\<rparr>) = (sendErrorACK data message w)\<lparr>handler := h\<rparr>"
  by (simp add: sendErrorACK_def handler_log_event)

lemma handler_sendACKWithLock:
  "sendACKWithLock data response (w\<lparr>handler := h\<rparr>) =
     (sendACKWithLock data response w)\<lparr>handler := h\<rparr>"
  by (simp add: sendACKWithLock_def handler_log_event)

lemma handler_processFileUpdateAsync:
  "processFileUpdateAsync env socket u (w\<lparr>handler := h\<rparr>) =
     (processFileUpdateAsync env socket u w)\<lparr>handler := h\<rparr>"
  using shifted_processFileUpdateAsync [of h env socket u]
  by (simp add: relates_def shifted_def)

lemma handler_handleFileUpdate:
  "handleFileUpdate env socket s (w\<lparr>handler := h\<rparr>) =
     (fst (handleFileUpdate env socket s w), (snd (handleFileUpdate env socket s w))\<lparr>handler := h\<rparr>)"
  by (simp add: handleFileUpdate_def handler_log_event split: sum.splits)

lemma handler_handleFileUpdateFromObject:
  "handleFileUpdateFromObject env socket data (w\<lparr>handler := h\<rparr>) =
     (fst (handleFileUpdateFromObject env socket data w),
      (snd (handleFileUpdateFromObject env socket data w))\<lparr>handler := h\<rparr>)"
proof (cases "\<exists>m rest. Data data = IMap m # rest")
  case True
  then obtain m rest where "Data data = IMap m # rest"
    by blast
  from handleFileUpdateFromObject_map [OF this, of env socket] show ?thesis
    by (auto simp: handler_log_event)
next
  case False
  then show ?thesis
    by (simp add: handleFileUpdateFromObject_def split: list.splits iface.splits)
qed

lemma handler_processFileUpdateData:
  "processFileUpdateData env socket data (w\<lparr>handler := h\<rparr>) =
     (processFileUpdateData env socket data w)\<lparr>handler := h\<rparr>"
  by (simp add: processFileUpdateData_def handler_handleFileUpdate
      handler_handleFileUpdateFromObject handler_sendACKWithLock handler_sendErrorACK
      handler_log_event case_prod_unfold split: list.splits iface.splits)

lemma handler_registerFileUpdateHandler:
  "registerFileUpdateHandler env socket data (w\<lparr>handler := h\<rparr>) =
     (registerFileUpdateHandler env socket data w)\<lparr>handler := h\<rparr>"
  by (simp add: registerFileUpdateHandler_def handler_processFileUpdateData
      handler_sendErrorACK)

lemma handler_clock:
  "clock f (w\<lparr>handler := h\<rparr>) = (fst (clock f w), (snd (clock f w))\<lparr>handler := h\<rparr>)"
  by (simp add: clock_def split: prod.splits)

lemma handler_handleTestPing:
  "handleTestPing env socket s (w\<lparr>handler := h\<rparr>) = (handleTestPing env socket s w)\<lparr>handler := h\<rparr>"
  by (simp add: handleTestPing_def handler_clock handler_log_event case_prod_unfold
      split: sum.splits)

lemma handler_registerTestPingHandler:
  "registerTestPingHandler env socket data (w\<lparr>handler := h\<rparr>) =
     (registerTestPingHandler env socket data w)\<lparr>handler := h\<rparr>"
  by (simp add: registerTestPingHandler_def handler_handleTestPing
      split: list.splits iface.splits)

lemma handler_handleHeartbeat:
  "handleHeartbeat env socket s (w\<lparr>handler := h\<rparr>) =
     (fst (handleHeartbeat env socket s w), (snd (handleHeartbeat env socket s w))\<lparr>handler := h\<rparr>)"
  by (simp add: handleHeartbeat_def handler_clock case_prod_unfold split: sum.splits)

lemma handler_registerHeartbeatHandler:
  "registerHeartbeatHandler env socket data (w\<lparr>handler := h\<rparr>) =
     (registerHeartbeatHandler env socket data w)\<lparr>handler := h\<rparr>"
  by (simp add: registerHeartbeatHandler_def handler_handleHeartbeat handler_sendErrorACK
      handler_log_event case_prod_unfold split: list.splits iface.splits)

lemma handler_registerWorkspaceStatsHandler:
  "registerWorkspaceStatsHandler env socket data (w\<lparr>handler := h\<rparr>) =
     (registerWorkspaceStatsHandler env socket data w)\<lparr>handler := h\<rparr>"
  by (simp add: registerWorkspaceStatsHandler_def handler_log_event)

lemma handler_socket_On:
  "socket_On env socket name data (w\<lparr>handler := h\<rparr>) =
     (socket_On env socket name data w)\<lparr>handler := h\<rparr>"
  by (simp add: socket_On_def registerDisconnectHandler_def handler_registerFileUpdateHandler
      handler_registerTestPingHandler handler_registerHeartbeatHandler
      handler_registerWorkspaceStatsHandler)

lemma handler_step:
  "step env a (w\<lparr>handler := h\<rparr>) = (step env a w)\<lparr>handler := h\<rparr>"
  by (cases a)
    (simp_all add: handler_socket_On handler_processFileUpdateAsync handleConnection_def
      sendServerStatus_def BroadcastServerStatus_def handler_log_event)

lemma handler_run:
  "run env acts (w\<lparr>handler := h\<rparr>) = (run env acts w)\<lparr>handler := h\<rparr>"
  by (induction acts arbitrary: w) (simp_all add: handler_step)

text \<open>Claim C9. No action of a run reads or writes the workspace cache: started with the
  handler \<open>NewSocketHandler\<close> constructs, every run (connections, events of every channel
  with any payload, reconciliation goroutines, broadcasts) ends with the cache still the
  empty map; and a run started with any other handler value \<open>h\<close> does the same to the
  store and to the trace, and leaves \<open>h\<close> as it was.\<close>

theorem workspaceCache_is_never_used:
  "workspaceCache (handler (run env acts (w\<lparr>handler := NewSocketHandler\<rparr>))) = Map.empty
   \<and> run env acts (w\<lparr>handler := h\<rparr>) = (run env acts w)\<lparr>handler := h\<rparr>"
proof
  have "handler (run env acts (w\<lparr>handler := NewSocketHandler\<rparr>)) = NewSocketHandler"
    by (simp add: handler_run)
  then show "workspaceCache (handler (run env acts (w\<lparr>handler := NewSocketHandler\<rparr>))) = Map.empty"
    by (simp add: NewSocketHandler_def)
  show "run env acts (w\<lparr>handler := h\<rparr>) = (run env acts w)\<lparr>handler := h\<rparr>"
    by (rule handler_run)
qed

end
